theory Spec2Isabelle
  imports Complex_Main "HOL-Library.Log_Nat"
begin

section \<open>JavaScript numbers\<close>

text \<open>
  The code computes money with JavaScript numbers, which are IEEE 754 binary64 values. A
  number is a finite value (the rational it denotes), an infinity with its sign
  (\<open>Infinite True\<close> is \<open>+Infinity\<close>), or \<open>NaN\<close>. Negative zero is not kept apart from zero:
  the two differ only as divisors, and the one division of the code, for the average
  price, divides by a sum of two share counts; where that sum is zero the ownership row
  is deleted and the quotient is not written.
\<close>

datatype number = Fin rat | Infinite bool | NaN

text \<open>
  Rounding to the nearest double, ties to even. For \<open>x \<noteq> 0\<close> the binary exponent of \<open>\<bar>x\<bar>\<close>
  is \<open>log2_floor \<bar>x\<bar>\<close>; the spacing of the doubles around \<open>x\<close> is \<open>2\<close> to the power of that
  exponent less 52, and never below \<open>2\<close> to the power \<open>-1074\<close> (the subnormal range); a result
  of \<open>2\<close> to the power 1024 or more is an infinity.
\<close>

definition pow2 :: "int \<Rightarrow> rat" where
  "pow2 e = (if 0 \<le> e then 2 ^ nat e else 1 / 2 ^ nat (- e))"

definition log2_floor :: "rat \<Rightarrow> int" where
  "log2_floor x =
     (case quotient_of x of (p, q) \<Rightarrow>
        (let d = bitlen p - bitlen q in if pow2 d \<le> x then d else d - 1))"

definition round_half_even :: "rat \<Rightarrow> int" where
  "round_half_even x =
     (let f = \<lfloor>x\<rfloor>; r = x - of_int f
      in if r < 1 / 2 then f
         else if 1 / 2 < r then f + 1
         else if even f then f else f + 1)"

definition to_double :: "rat \<Rightarrow> number" where
  "to_double x =
     (if x = 0 then Fin 0
      else
        (let a = \<bar>x\<bar>;
             e = max (log2_floor a - 52) (- 1074);
             r = of_int (round_half_even (a / pow2 e)) * pow2 e
         in if pow2 1024 \<le> r then Infinite (0 < x)
            else Fin (if 0 < x then r else - r)))"

text \<open>The operators the code uses: \<open>+\<close>, \<open>-\<close>, \<open>*\<close>, \<open>/\<close> and \<open><\<close>. Each arithmetic operator
  rounds its exact result; a comparison with \<open>NaN\<close> is false.\<close>

fun js_neg :: "number \<Rightarrow> number" where
  "js_neg (Fin a) = Fin (- a)"
| "js_neg (Infinite s) = Infinite (\<not> s)"
| "js_neg NaN = NaN"

fun js_add :: "number \<Rightarrow> number \<Rightarrow> number" where
  "js_add (Fin a) (Fin b) = to_double (a + b)"
| "js_add (Fin a) (Infinite s) = Infinite s"
| "js_add (Infinite s) (Fin b) = Infinite s"
| "js_add (Infinite s) (Infinite t) = (if s = t then Infinite s else NaN)"
| "js_add NaN y = NaN"
| "js_add x NaN = NaN"

definition js_sub :: "number \<Rightarrow> number \<Rightarrow> number" where
  "js_sub x y = js_add x (js_neg y)"

fun js_mul :: "number \<Rightarrow> number \<Rightarrow> number" where
  "js_mul (Fin a) (Fin b) = to_double (a * b)"
| "js_mul (Fin a) (Infinite s) = (if a = 0 then NaN else Infinite (s = (0 < a)))"
| "js_mul (Infinite s) (Fin b) = (if b = 0 then NaN else Infinite (s = (0 < b)))"
| "js_mul (Infinite s) (Infinite t) = Infinite (s = t)"
| "js_mul NaN y = NaN"
| "js_mul x NaN = NaN"

fun js_div :: "number \<Rightarrow> number \<Rightarrow> number" where
  "js_div (Fin a) (Fin b) =
     (if b = 0 then (if a = 0 then NaN else Infinite (0 < a)) else to_double (a / b))"
| "js_div (Fin a) (Infinite s) = Fin 0"
| "js_div (Infinite s) (Fin b) = Infinite (s = (0 \<le> b))"
| "js_div (Infinite s) (Infinite t) = NaN"
| "js_div NaN y = NaN"
| "js_div x NaN = NaN"

fun js_lt :: "number \<Rightarrow> number \<Rightarrow> bool" where
  "js_lt (Fin a) (Fin b) = (a < b)"
| "js_lt (Fin a) (Infinite s) = s"
| "js_lt (Infinite s) (Fin b) = (\<not> s)"
| "js_lt (Infinite s) (Infinite t) = (\<not> s \<and> t)"
| "js_lt NaN y = False"
| "js_lt x NaN = False"

text \<open>A share count as a number. The counts are integers (the columns are \<open>INTEGER\<close>);
  below \<open>2\<close> to the power 53 in magnitude they are doubles as they stand.\<close>

definition js_int :: "int \<Rightarrow> number" where
  "js_int n = to_double (of_int n)"

section \<open>Data model: the four tables the trading code touches\<close>

text \<open>
  The code works on four Postgres tables through the Supabase client: \<open>user_accounts\<close>,
  \<open>profiles\<close>, \<open>shares\<close> and \<open>transactions\<close>. Each table is a list of rows; a row
  carries the columns the code reads or writes. User identifiers are strings, generated
  row identifiers are natural numbers.

  Share counts are integers (the columns are \<open>INTEGER\<close>) and are added and compared as
  such; money amounts are numbers, and every product, sum, difference, quotient and
  comparison of money is the double operation the code performs.

  What the model leaves out. A table hands back the number that was written to it: the
  rounding of a \<open>DECIMAL(10,2)\<close> column to two decimals is the database's, not the
  code's. The numeric columns are taken to hold numbers, not \<open>null\<close>. A store call
  reports a failure through its \<open>error\<close> field and does not throw, so the \<open>catch\<close>
  clauses of the functions are never entered. Where nothing else is said, one call of a
  function runs from its first store call to its return without another call in
  between; the section on two orders at once lifts this.
\<close>

type_synonym uid = string

datatype transaction_type = Buy | Sell

record account_row =
  acc_user_id :: uid
  acc_balance :: number

record profile_row =
  prof_id :: nat
  prof_user_id :: uid
  prof_username :: string
  is_tradeable :: bool
  total_shares :: int
  available_shares :: int
  current_price :: number

record share_row =
  share_id :: nat
  owner_id :: uid
  share_tradeable_user_id :: uid
  share_quantity :: int
  average_price :: number

record transaction_row =
  txn_id :: nat
  buyer_id :: uid
  seller_id :: "uid option"
  txn_tradeable_user_id :: uid
  txn_type :: transaction_type
  txn_quantity :: int
  price_per_share :: number
  total_amount :: number

record db =
  user_accounts :: "account_row list"
  profiles :: "profile_row list"
  shares :: "share_row list"
  transactions :: "transaction_row list"

text \<open>The result object \<open>TradeExecutionResult\<close> of both settlement functions.\<close>

record TradeExecutionResult =
  success :: bool
  error :: "string option"
  transactionId :: "nat option"

definition failure :: "string \<Rightarrow> TradeExecutionResult" where
  "failure msg = \<lparr>success = False, error = Some msg, transactionId = None\<rparr>"

definition succeeded :: "nat \<Rightarrow> TradeExecutionResult" where
  "succeeded tid = \<lparr>success = True, error = None, transactionId = Some tid\<rparr>"

section \<open>The store interface\<close>

text \<open>
  Every call to the store either succeeds or hands back an error object. Which calls fail
  is decided outside the code, so it is a parameter: a fault plan maps each call site to
  the error it returns, if any. The calls a run makes are recorded in order, so that
  statements about the order of reads and writes can be made.
\<close>

record pg_error =
  err_code :: string
  err_message :: string

datatype call =
    SelectAccount
  | SelectProfile
  | SelectHoldings
  | UpdateBalance
  | UpdateAvailableShares
  | SelectShares
  | DeleteShares
  | UpdateShares
  | InsertShares
  | InsertTransaction
  | RollbackBalance
  | RollbackAvailableShares
  | RollbackTransaction

type_synonym faults = "call \<Rightarrow> pg_error option"

fun is_write :: "call \<Rightarrow> bool" where
  "is_write SelectAccount = False"
| "is_write SelectProfile = False"
| "is_write SelectHoldings = False"
| "is_write SelectShares = False"
| "is_write _ = True"

text \<open>
  \<open>.single()\<close> yields an error unless exactly one row matches; \<open>.maybeSingle()\<close> yields
  \<open>null\<close> data for no row and an error for more than one. \<open>None\<close> stands for the error.
\<close>

definition single :: "pg_error option \<Rightarrow> 'a list \<Rightarrow> 'a option" where
  "single e rows =
     (case e of Some _ \<Rightarrow> None
      | None \<Rightarrow> (case rows of [r] \<Rightarrow> Some r | _ \<Rightarrow> None))"

definition maybeSingle :: "pg_error option \<Rightarrow> 'a list \<Rightarrow> 'a option option" where
  "maybeSingle e rows =
     (case e of Some _ \<Rightarrow> None
      | None \<Rightarrow> (case rows of [] \<Rightarrow> Some None | [r] \<Rightarrow> Some (Some r) | _ \<Rightarrow> None))"

text \<open>\<open>.update(f).eq(...)\<close> rewrites every matching row; \<open>.delete().eq(...)\<close> drops them.\<close>

definition update_where :: "('a \<Rightarrow> bool) \<Rightarrow> ('a \<Rightarrow> 'a) \<Rightarrow> 'a list \<Rightarrow> 'a list" where
  "update_where p f rows = map (\<lambda>r. if p r then f r else r) rows"

definition delete_where :: "('a \<Rightarrow> bool) \<Rightarrow> 'a list \<Rightarrow> 'a list" where
  "delete_where p rows = filter (\<lambda>r. \<not> p r) rows"

text \<open>The database generates the identifier of an inserted row; it is new to the table.\<close>

definition fresh_id :: "nat list \<Rightarrow> nat" where
  "fresh_id ids = Suc (foldr max ids 0)"

text \<open>\<open>String.prototype.includes\<close>, used to recognise a row-level-security error.\<close>

fun starts_with :: "string \<Rightarrow> string \<Rightarrow> bool" where
  "starts_with s [] = True"
| "starts_with [] (c # cs) = False"
| "starts_with (x # xs) (c # cs) = (x = c \<and> starts_with xs cs)"

fun str_includes :: "string \<Rightarrow> string \<Rightarrow> bool" where
  "str_includes [] sub = (sub = [])"
| "str_includes (x # xs) sub = (starts_with (x # xs) sub \<or> str_includes xs sub)"

section \<open>executeTradeTransaction (src/utils/tradeExecution.ts)\<close>

text \<open>
  The function the pages call. It runs six numbered steps: read the account and check
  the funds of a buy, read the profile and check the supply of a buy, update the balance,
  update the available shares, update the ownership row, record the transaction. A
  failing step returns at once; nothing written before it is undone.

  Step 5 of the function: update, delete or create the ownership row of the buyer.
  The result is the error message of an early return, or the store to go on with,
  together with the calls made.
\<close>

definition update_ownership ::
  "faults \<Rightarrow> uid \<Rightarrow> uid \<Rightarrow> int \<Rightarrow> number \<Rightarrow> transaction_type \<Rightarrow> db \<Rightarrow> (string + db) \<times> call list" where
  "update_ownership fl buyerId tradeableUserId quantity pricePerShare transactionType d =
     (case maybeSingle (fl SelectShares)
             (filter (\<lambda>r. owner_id r = buyerId \<and> share_tradeable_user_id r = tradeableUserId) (shares d)) of
        None \<Rightarrow> (Inl ''Failed to check existing shares'', [SelectShares])
      | Some (Some existingShares) \<Rightarrow>
          (let newQuantity = (if transactionType = Buy
                              then share_quantity existingShares + quantity
                              else share_quantity existingShares - quantity);
               newAveragePrice = (if transactionType = Buy
                              then js_div
                                     (js_add (js_mul (js_int (share_quantity existingShares))
                                                     (average_price existingShares))
                                             (js_mul (js_int quantity) pricePerShare))
                                     (js_int (share_quantity existingShares + quantity))
                              else average_price existingShares)
           in if newQuantity \<le> 0 then
                (case fl DeleteShares of
                   Some _ \<Rightarrow> (Inl ''Failed to update shares record'', [SelectShares, DeleteShares])
                 | None \<Rightarrow>
                     (Inr (d\<lparr>shares := delete_where (\<lambda>r. share_id r = share_id existingShares) (shares d)\<rparr>),
                      [SelectShares, DeleteShares]))
              else
                (case fl UpdateShares of
                   Some _ \<Rightarrow> (Inl ''Failed to update shares record'', [SelectShares, UpdateShares])
                 | None \<Rightarrow>
                     (Inr (d\<lparr>shares := update_where (\<lambda>r. share_id r = share_id existingShares)
                                (\<lambda>r. r\<lparr>share_quantity := newQuantity, average_price := newAveragePrice\<rparr>)
                                (shares d)\<rparr>),
                      [SelectShares, UpdateShares])))
      | Some None \<Rightarrow>
          (if transactionType = Buy then
             (case fl InsertShares of
                Some _ \<Rightarrow> (Inl ''Failed to create shares record'', [SelectShares, InsertShares])
              | None \<Rightarrow>
                  (Inr (d\<lparr>shares := shares d @
                          [\<lparr>share_id = fresh_id (map share_id (shares d)), owner_id = buyerId,
                            share_tradeable_user_id = tradeableUserId, share_quantity = quantity,
                            average_price = pricePerShare\<rparr>]\<rparr>),
                   [SelectShares, InsertShares]))
           else (Inl ''Cannot sell shares you do not own'', [SelectShares])))"

text \<open>Step 6: record the transaction.\<close>

definition new_transaction ::
  "nat \<Rightarrow> uid \<Rightarrow> uid \<Rightarrow> int \<Rightarrow> number \<Rightarrow> transaction_type \<Rightarrow> transaction_row" where
  "new_transaction tid buyerId tradeableUserId quantity pricePerShare transactionType =
     \<lparr>txn_id = tid, buyer_id = buyerId,
      seller_id = (if transactionType = Sell then Some buyerId else None),
      txn_tradeable_user_id = tradeableUserId, txn_type = transactionType,
      txn_quantity = quantity, price_per_share = pricePerShare,
      total_amount = js_mul (js_int quantity) pricePerShare\<rparr>"

definition record_transaction ::
  "faults \<Rightarrow> uid \<Rightarrow> uid \<Rightarrow> int \<Rightarrow> number \<Rightarrow> transaction_type \<Rightarrow> db \<Rightarrow> (string + nat \<times> db)" where
  "record_transaction fl buyerId tradeableUserId quantity pricePerShare transactionType d =
     (case fl InsertTransaction of
        Some _ \<Rightarrow> Inl ''Failed to record transaction''
      | None \<Rightarrow>
          (let tid = fresh_id (map txn_id (transactions d))
           in Inr (tid, d\<lparr>transactions := transactions d @
                      [new_transaction tid buyerId tradeableUserId quantity pricePerShare transactionType]\<rparr>)))"

definition executeTradeTransaction ::
  "faults \<Rightarrow> uid \<Rightarrow> uid \<Rightarrow> int \<Rightarrow> number \<Rightarrow> transaction_type \<Rightarrow> db
     \<Rightarrow> TradeExecutionResult \<times> db \<times> call list" where
  "executeTradeTransaction fl buyerId tradeableUserId quantity pricePerShare transactionType d =
     (let totalAmount = js_mul (js_int quantity) pricePerShare in
      case single (fl SelectAccount) (filter (\<lambda>r. acc_user_id r = buyerId) (user_accounts d)) of
        None \<Rightarrow> (failure ''Failed to fetch buyer account information'', d, [SelectAccount])
      | Some buyerAccount \<Rightarrow>
          if transactionType = Buy \<and> js_lt (acc_balance buyerAccount) totalAmount
          then (failure ''Insufficient funds'', d, [SelectAccount])
          else
          (case single (fl SelectProfile) (filter (\<lambda>r. prof_user_id r = tradeableUserId) (profiles d)) of
             None \<Rightarrow> (failure ''Failed to fetch trader information'', d, [SelectAccount, SelectProfile])
           | Some tradeableProfile \<Rightarrow>
               if transactionType = Buy \<and> available_shares tradeableProfile < quantity
               then (failure ''Insufficient shares available'', d, [SelectAccount, SelectProfile])
               else
               (let newBalance = (if transactionType = Buy
                                  then js_sub (acc_balance buyerAccount) totalAmount
                                  else js_add (acc_balance buyerAccount) totalAmount)
                in case fl UpdateBalance of
                     Some _ \<Rightarrow> (failure ''Failed to update account balance'', d,
                                 [SelectAccount, SelectProfile, UpdateBalance])
                   | None \<Rightarrow>
                  (let d1 = d\<lparr>user_accounts := update_where (\<lambda>r. acc_user_id r = buyerId)
                                   (\<lambda>r. r\<lparr>acc_balance := newBalance\<rparr>) (user_accounts d)\<rparr>;
                       newAvailableShares = (if transactionType = Buy
                                  then available_shares tradeableProfile - quantity
                                  else available_shares tradeableProfile + quantity)
                   in case fl UpdateAvailableShares of
                        Some sharesError \<Rightarrow>
                          (if str_includes (err_message sharesError) ''policy'' \<or> err_code sharesError = ''42501''
                           then failure ''Permission denied: Cannot update share availability. This may be a Row Level Security policy issue.''
                           else failure ''Failed to update share availability'',
                           d1, [SelectAccount, SelectProfile, UpdateBalance, UpdateAvailableShares])
                      | None \<Rightarrow>
                     (let d2 = d1\<lparr>profiles := update_where (\<lambda>r. prof_user_id r = tradeableUserId)
                                      (\<lambda>r. r\<lparr>available_shares := newAvailableShares\<rparr>) (profiles d1)\<rparr>
                      in case update_ownership fl buyerId tradeableUserId quantity pricePerShare transactionType d2 of
                           (Inl msg, tr) \<Rightarrow>
                             (failure msg, d2,
                              [SelectAccount, SelectProfile, UpdateBalance, UpdateAvailableShares] @ tr)
                         | (Inr d3, tr) \<Rightarrow>
                        (case record_transaction fl buyerId tradeableUserId quantity pricePerShare transactionType d3 of
                           Inl msg \<Rightarrow>
                             (failure msg, d3,
                              [SelectAccount, SelectProfile, UpdateBalance, UpdateAvailableShares] @ tr
                                @ [InsertTransaction])
                         | Inr (tid, d4) \<Rightarrow>
                             (succeeded tid, d4,
                              [SelectAccount, SelectProfile, UpdateBalance, UpdateAvailableShares] @ tr
                                @ [InsertTransaction])))))))"

section \<open>executeTradeTransactionImproved, the later version of the function\<close>

text \<open>
  The improved function checks the holdings of a seller before it writes, inserts the
  transaction row first, and after a failure writes back what it had changed. These are
  its compensating writes. Their results are not inspected by
  the code: a compensation that fails leaves the store as it was.
\<close>

definition rollback_balance :: "faults \<Rightarrow> uid \<Rightarrow> number \<Rightarrow> db \<Rightarrow> db" where
  "rollback_balance fl buyerId oldBalance d =
     (case fl RollbackBalance of
        Some _ \<Rightarrow> d
      | None \<Rightarrow> d\<lparr>user_accounts := update_where (\<lambda>r. acc_user_id r = buyerId)
                       (\<lambda>r. r\<lparr>acc_balance := oldBalance\<rparr>) (user_accounts d)\<rparr>)"

definition rollback_available_shares :: "faults \<Rightarrow> uid \<Rightarrow> int \<Rightarrow> db \<Rightarrow> db" where
  "rollback_available_shares fl tradeableUserId oldShares d =
     (case fl RollbackAvailableShares of
        Some _ \<Rightarrow> d
      | None \<Rightarrow> d\<lparr>profiles := update_where (\<lambda>r. prof_user_id r = tradeableUserId)
                       (\<lambda>r. r\<lparr>available_shares := oldShares\<rparr>) (profiles d)\<rparr>)"

definition rollback_transaction :: "faults \<Rightarrow> nat \<Rightarrow> db \<Rightarrow> db" where
  "rollback_transaction fl tid d =
     (case fl RollbackTransaction of
        Some _ \<Rightarrow> d
      | None \<Rightarrow> d\<lparr>transactions := delete_where (\<lambda>r. txn_id r = tid) (transactions d)\<rparr>)"

text \<open>Step 3 of the improved function: a sell needs an ownership row with enough shares.\<close>

definition holdings_insufficient :: "faults \<Rightarrow> uid \<Rightarrow> uid \<Rightarrow> int \<Rightarrow> db \<Rightarrow> bool" where
  "holdings_insufficient fl buyerId tradeableUserId quantity d =
     (case single (fl SelectHoldings)
             (filter (\<lambda>r. owner_id r = buyerId \<and> share_tradeable_user_id r = tradeableUserId) (shares d)) of
        None \<Rightarrow> True
      | Some existingShares \<Rightarrow> share_quantity existingShares < quantity)"

text \<open>Step 5 of the improved function. Unlike the first version it has no branch for a
  sell without an ownership row: the function goes on to report success.\<close>

definition update_ownership_improved ::
  "faults \<Rightarrow> uid \<Rightarrow> uid \<Rightarrow> int \<Rightarrow> number \<Rightarrow> transaction_type \<Rightarrow> db \<Rightarrow> (string + db) \<times> call list" where
  "update_ownership_improved fl buyerId tradeableUserId quantity pricePerShare transactionType d =
     (case maybeSingle (fl SelectShares)
             (filter (\<lambda>r. owner_id r = buyerId \<and> share_tradeable_user_id r = tradeableUserId) (shares d)) of
        None \<Rightarrow> (Inl ''Failed to check existing shares'', [SelectShares])
      | Some (Some existingShares) \<Rightarrow>
          (let newQuantity = (if transactionType = Buy
                              then share_quantity existingShares + quantity
                              else share_quantity existingShares - quantity);
               newAveragePrice = (if transactionType = Buy
                              then js_div
                                     (js_add (js_mul (js_int (share_quantity existingShares))
                                                     (average_price existingShares))
                                             (js_mul (js_int quantity) pricePerShare))
                                     (js_int (share_quantity existingShares + quantity))
                              else average_price existingShares)
           in if newQuantity \<le> 0 then
                (case fl DeleteShares of
                   Some _ \<Rightarrow> (Inl ''Failed to update shares record'', [SelectShares, DeleteShares])
                 | None \<Rightarrow>
                     (Inr (d\<lparr>shares := delete_where (\<lambda>r. share_id r = share_id existingShares) (shares d)\<rparr>),
                      [SelectShares, DeleteShares]))
              else
                (case fl UpdateShares of
                   Some _ \<Rightarrow> (Inl ''Failed to update shares record'', [SelectShares, UpdateShares])
                 | None \<Rightarrow>
                     (Inr (d\<lparr>shares := update_where (\<lambda>r. share_id r = share_id existingShares)
                                (\<lambda>r. r\<lparr>share_quantity := newQuantity, average_price := newAveragePrice\<rparr>)
                                (shares d)\<rparr>),
                      [SelectShares, UpdateShares])))
      | Some None \<Rightarrow>
          (if transactionType = Buy then
             (case fl InsertShares of
                Some _ \<Rightarrow> (Inl ''Failed to create shares record'', [SelectShares, InsertShares])
              | None \<Rightarrow>
                  (Inr (d\<lparr>shares := shares d @
                          [\<lparr>share_id = fresh_id (map share_id (shares d)), owner_id = buyerId,
                            share_tradeable_user_id = tradeableUserId, share_quantity = quantity,
                            average_price = pricePerShare\<rparr>]\<rparr>),
                   [SelectShares, InsertShares]))
           else (Inr d, [SelectShares])))"

text \<open>Steps 2 to 5 of the improved function: the writes, each followed on failure by the
  compensations of the writes made before it.\<close>

definition settle_improved ::
  "faults \<Rightarrow> uid \<Rightarrow> uid \<Rightarrow> int \<Rightarrow> number \<Rightarrow> transaction_type \<Rightarrow> account_row \<Rightarrow> profile_row \<Rightarrow> db
     \<Rightarrow> TradeExecutionResult \<times> db \<times> call list" where
  "settle_improved fl buyerId tradeableUserId quantity pricePerShare transactionType
       buyerAccount tradeableProfile d =
     (let totalAmount = js_mul (js_int quantity) pricePerShare in
      case record_transaction fl buyerId tradeableUserId quantity pricePerShare transactionType d of
        Inl msg \<Rightarrow> (failure msg, d, [InsertTransaction])
      | Inr (tid, d1) \<Rightarrow>
     (let newBalance = (if transactionType = Buy
                        then js_sub (acc_balance buyerAccount) totalAmount
                        else js_add (acc_balance buyerAccount) totalAmount)
      in case fl UpdateBalance of
           Some _ \<Rightarrow> (failure ''Failed to update account balance'', rollback_transaction fl tid d1,
                       [InsertTransaction, UpdateBalance, RollbackTransaction])
         | None \<Rightarrow>
        (let d2 = d1\<lparr>user_accounts := update_where (\<lambda>r. acc_user_id r = buyerId)
                          (\<lambda>r. r\<lparr>acc_balance := newBalance\<rparr>) (user_accounts d1)\<rparr>;
             newAvailableShares = (if transactionType = Buy
                          then available_shares tradeableProfile - quantity
                          else available_shares tradeableProfile + quantity)
         in if newAvailableShares < 0 then
              (failure ''Invalid share calculation'',
               rollback_transaction fl tid (rollback_balance fl buyerId (acc_balance buyerAccount) d2),
               [InsertTransaction, UpdateBalance, RollbackBalance, RollbackTransaction])
            else if newAvailableShares > total_shares tradeableProfile then
              (failure ''Invalid share calculation'',
               rollback_transaction fl tid (rollback_balance fl buyerId (acc_balance buyerAccount) d2),
               [InsertTransaction, UpdateBalance, RollbackBalance, RollbackTransaction])
            else
            (case fl UpdateAvailableShares of
               Some _ \<Rightarrow>
                 (failure ''Failed to update share availability'',
                  rollback_transaction fl tid (rollback_balance fl buyerId (acc_balance buyerAccount) d2),
                  [InsertTransaction, UpdateBalance, UpdateAvailableShares, RollbackBalance,
                   RollbackTransaction])
             | None \<Rightarrow>
            (let d3 = d2\<lparr>profiles := update_where (\<lambda>r. prof_user_id r = tradeableUserId)
                             (\<lambda>r. r\<lparr>available_shares := newAvailableShares\<rparr>) (profiles d2)\<rparr>
             in case update_ownership_improved fl buyerId tradeableUserId quantity pricePerShare
                       transactionType d3 of
                  (Inl msg, tr) \<Rightarrow>
                    (failure msg,
                     rollback_transaction fl tid
                       (rollback_available_shares fl tradeableUserId (available_shares tradeableProfile)
                          (rollback_balance fl buyerId (acc_balance buyerAccount) d3)),
                     [InsertTransaction, UpdateBalance, UpdateAvailableShares] @ tr
                       @ [RollbackBalance, RollbackAvailableShares, RollbackTransaction])
                | (Inr d4, tr) \<Rightarrow>
                    (succeeded tid, d4,
                     [InsertTransaction, UpdateBalance, UpdateAvailableShares] @ tr))))))"

text \<open>Step 1 of the improved function, the checks made before any write, then the writes.\<close>

definition executeTradeTransactionImproved ::
  "faults \<Rightarrow> uid \<Rightarrow> uid \<Rightarrow> int \<Rightarrow> number \<Rightarrow> transaction_type \<Rightarrow> db
     \<Rightarrow> TradeExecutionResult \<times> db \<times> call list" where
  "executeTradeTransactionImproved fl buyerId tradeableUserId quantity pricePerShare transactionType d =
     (let totalAmount = js_mul (js_int quantity) pricePerShare in
      case single (fl SelectAccount) (filter (\<lambda>r. acc_user_id r = buyerId) (user_accounts d)) of
        None \<Rightarrow> (failure ''Failed to fetch buyer account information'', d, [SelectAccount])
      | Some buyerAccount \<Rightarrow>
          if transactionType = Buy \<and> js_lt (acc_balance buyerAccount) totalAmount
          then (failure ''Insufficient funds'', d, [SelectAccount])
          else
          (case single (fl SelectProfile) (filter (\<lambda>r. prof_user_id r = tradeableUserId) (profiles d)) of
             None \<Rightarrow> (failure ''Failed to fetch trader information'', d, [SelectAccount, SelectProfile])
           | Some tradeableProfile \<Rightarrow>
               if transactionType = Buy \<and> available_shares tradeableProfile < quantity
               then (failure ''Insufficient shares available'', d, [SelectAccount, SelectProfile])
               else if transactionType = Sell
                       \<and> holdings_insufficient fl buyerId tradeableUserId quantity d
               then (failure ''Cannot sell shares you do not own'', d,
                     [SelectAccount, SelectProfile, SelectHoldings])
               else
               (case settle_improved fl buyerId tradeableUserId quantity pricePerShare transactionType
                       buyerAccount tradeableProfile d of
                  (res, d', tr) \<Rightarrow>
                    (res, d',
                     [SelectAccount, SelectProfile]
                       @ (if transactionType = Sell then [SelectHoldings] else []) @ tr))))"

section \<open>Two calls of executeTradeTransaction at once\<close>

text \<open>
  Every store call of the function is awaited, so a second call of the function can run
  between any two store calls of the first. The function holds no lock and checks no
  version: steps 3 and 4 write a balance and a share count computed from the rows that
  steps 1 and 2 read, whatever the store holds by then. To state this the function is
  cut where its checks end. \<open>read_steps\<close> is steps 1 and 2: it yields the early return of
  a failed read or check, or the two rows read. \<open>write_steps\<close> is steps 3 to 6, run on
  the store as it is when they start, with the rows read before.
\<close>

definition read_steps ::
  "faults \<Rightarrow> uid \<Rightarrow> uid \<Rightarrow> int \<Rightarrow> number \<Rightarrow> transaction_type \<Rightarrow> db
     \<Rightarrow> (TradeExecutionResult \<times> call list) + (account_row \<times> profile_row)" where
  "read_steps fl buyerId tradeableUserId quantity pricePerShare transactionType d =
     (let totalAmount = js_mul (js_int quantity) pricePerShare in
      case single (fl SelectAccount) (filter (\<lambda>r. acc_user_id r = buyerId) (user_accounts d)) of
        None \<Rightarrow> Inl (failure ''Failed to fetch buyer account information'', [SelectAccount])
      | Some buyerAccount \<Rightarrow>
          if transactionType = Buy \<and> js_lt (acc_balance buyerAccount) totalAmount
          then Inl (failure ''Insufficient funds'', [SelectAccount])
          else
          (case single (fl SelectProfile) (filter (\<lambda>r. prof_user_id r = tradeableUserId) (profiles d)) of
             None \<Rightarrow> Inl (failure ''Failed to fetch trader information'', [SelectAccount, SelectProfile])
           | Some tradeableProfile \<Rightarrow>
               if transactionType = Buy \<and> available_shares tradeableProfile < quantity
               then Inl (failure ''Insufficient shares available'', [SelectAccount, SelectProfile])
               else Inr (buyerAccount, tradeableProfile)))"

definition write_steps ::
  "faults \<Rightarrow> uid \<Rightarrow> uid \<Rightarrow> int \<Rightarrow> number \<Rightarrow> transaction_type \<Rightarrow> account_row \<Rightarrow> profile_row \<Rightarrow> db
     \<Rightarrow> TradeExecutionResult \<times> db \<times> call list" where
  "write_steps fl buyerId tradeableUserId quantity pricePerShare transactionType
       buyerAccount tradeableProfile d =
     (let totalAmount = js_mul (js_int quantity) pricePerShare;
          newBalance = (if transactionType = Buy
                        then js_sub (acc_balance buyerAccount) totalAmount
                        else js_add (acc_balance buyerAccount) totalAmount)
      in case fl UpdateBalance of
           Some _ \<Rightarrow> (failure ''Failed to update account balance'', d, [UpdateBalance])
         | None \<Rightarrow>
        (let d1 = d\<lparr>user_accounts := update_where (\<lambda>r. acc_user_id r = buyerId)
                         (\<lambda>r. r\<lparr>acc_balance := newBalance\<rparr>) (user_accounts d)\<rparr>;
             newAvailableShares = (if transactionType = Buy
                        then available_shares tradeableProfile - quantity
                        else available_shares tradeableProfile + quantity)
         in case fl UpdateAvailableShares of
              Some sharesError \<Rightarrow>
                (if str_includes (err_message sharesError) ''policy'' \<or> err_code sharesError = ''42501''
                 then failure ''Permission denied: Cannot update share availability. This may be a Row Level Security policy issue.''
                 else failure ''Failed to update share availability'',
                 d1, [UpdateBalance, UpdateAvailableShares])
            | None \<Rightarrow>
           (let d2 = d1\<lparr>profiles := update_where (\<lambda>r. prof_user_id r = tradeableUserId)
                            (\<lambda>r. r\<lparr>available_shares := newAvailableShares\<rparr>) (profiles d1)\<rparr>
            in case update_ownership fl buyerId tradeableUserId quantity pricePerShare transactionType d2 of
                 (Inl msg, tr) \<Rightarrow>
                   (failure msg, d2, [UpdateBalance, UpdateAvailableShares] @ tr)
               | (Inr d3, tr) \<Rightarrow>
              (case record_transaction fl buyerId tradeableUserId quantity pricePerShare transactionType d3 of
                 Inl msg \<Rightarrow>
                   (failure msg, d3, [UpdateBalance, UpdateAvailableShares] @ tr @ [InsertTransaction])
               | Inr (tid, d4) \<Rightarrow>
                   (succeeded tid, d4,
                    [UpdateBalance, UpdateAvailableShares] @ tr @ [InsertTransaction])))))"

text \<open>
  An order against a fixed issuer, with the fault plan of its run, and two ways for two
  orders to run. In \<open>one_after_the_other\<close> the second call starts when the first has
  returned. In \<open>reads_before_writes\<close> both calls have made their reads and checks before
  either writes; the first then makes its writes, and the second makes its own after it.
  Each yields the two results and the store left.
\<close>

record trade_order =
  ord_faults :: faults
  ord_buyer :: uid
  ord_quantity :: int
  ord_price :: number
  ord_type :: transaction_type

definition one_after_the_other ::
  "uid \<Rightarrow> trade_order \<Rightarrow> trade_order \<Rightarrow> db \<Rightarrow> TradeExecutionResult \<times> TradeExecutionResult \<times> db" where
  "one_after_the_other issuer a b d =
     (case executeTradeTransaction (ord_faults a) (ord_buyer a) issuer (ord_quantity a) (ord_price a)
             (ord_type a) d of
        (resA, d1, trA) \<Rightarrow>
          (case executeTradeTransaction (ord_faults b) (ord_buyer b) issuer (ord_quantity b) (ord_price b)
                  (ord_type b) d1 of
             (resB, d2, trB) \<Rightarrow> (resA, resB, d2)))"

definition reads_before_writes ::
  "uid \<Rightarrow> trade_order \<Rightarrow> trade_order \<Rightarrow> db \<Rightarrow> TradeExecutionResult \<times> TradeExecutionResult \<times> db" where
  "reads_before_writes issuer a b d =
     (let readA = read_steps (ord_faults a) (ord_buyer a) issuer (ord_quantity a) (ord_price a)
                    (ord_type a) d;
          readB = read_steps (ord_faults b) (ord_buyer b) issuer (ord_quantity b) (ord_price b)
                    (ord_type b) d
      in case (case readA of
                 Inl (resA, trA) \<Rightarrow> (resA, d)
               | Inr (accountA, profileA) \<Rightarrow>
                   (case write_steps (ord_faults a) (ord_buyer a) issuer (ord_quantity a) (ord_price a)
                           (ord_type a) accountA profileA d of
                      (resA, d1, trA) \<Rightarrow> (resA, d1))) of
           (resA, d1) \<Rightarrow>
             (case readB of
                Inl (resB, trB) \<Rightarrow> (resA, resB, d1)
              | Inr (accountB, profileB) \<Rightarrow>
                  (case write_steps (ord_faults b) (ord_buyer b) issuer (ord_quantity b) (ord_price b)
                          (ord_type b) accountB profileB d1 of
                     (resB, d2, trB) \<Rightarrow> (resA, resB, d2))))"

section \<open>The share-count audit and repair (src/utils/debugTrading.ts)\<close>

text \<open>
  \<open>debugAllTradeableUsers\<close> prints, for every tradeable profile, the share count expected
  from the transaction log next to the stored one; the model returns what it prints, one
  entry per profile, together with the store it leaves. \<open>fixShareCountDiscrepancies\<close>
  writes the expected count where the stored one differs; the model also returns the
  identifiers of the profiles it issued an update for.
\<close>

datatype audit_call = SelectTradeable | SelectTransactions uid | UpdateProfile nat

type_synonym audit_faults = "audit_call \<Rightarrow> bool"

record audit_entry =
  entry_username :: string
  entry_total :: int
  entry_bought :: int
  entry_sold :: int
  entry_expected :: int
  entry_actual :: int
  entry_discrepancy :: int
  entry_consistent :: bool

definition totalBought :: "transaction_row list \<Rightarrow> int" where
  "totalBought ts = foldl (\<lambda>sum t. sum + txn_quantity t) 0 (filter (\<lambda>t. txn_type t = Buy) ts)"

definition totalSold :: "transaction_row list \<Rightarrow> int" where
  "totalSold ts = foldl (\<lambda>sum t. sum + txn_quantity t) 0 (filter (\<lambda>t. txn_type t = Sell) ts)"

definition transactions_for :: "uid \<Rightarrow> db \<Rightarrow> transaction_row list" where
  "transactions_for u d = filter (\<lambda>t. txn_tradeable_user_id t = u) (transactions d)"

definition debug_user :: "audit_faults \<Rightarrow> db \<Rightarrow> profile_row \<Rightarrow> audit_entry list" where
  "debug_user fl d user =
     (if fl (SelectTransactions (prof_user_id user)) then []
      else
        (let ts = transactions_for (prof_user_id user) d;
             expectedAvailable = total_shares user - (totalBought ts - totalSold ts);
             discrepancy = available_shares user - expectedAvailable
         in [\<lparr>entry_username = prof_username user, entry_total = total_shares user,
               entry_bought = totalBought ts, entry_sold = totalSold ts,
               entry_expected = expectedAvailable, entry_actual = available_shares user,
               entry_discrepancy = discrepancy, entry_consistent = \<not> (discrepancy \<noteq> 0)\<rparr>]))"

definition debugAllTradeableUsers :: "audit_faults \<Rightarrow> db \<Rightarrow> audit_entry list \<times> db" where
  "debugAllTradeableUsers fl d =
     (if fl SelectTradeable then ([], d)
      else (concat (map (debug_user fl d) (filter is_tradeable (profiles d))), d))"

definition fix_user :: "audit_faults \<Rightarrow> profile_row \<Rightarrow> db \<times> nat list \<Rightarrow> db \<times> nat list" where
  "fix_user fl user st =
     (case st of (d, written) \<Rightarrow>
      if fl (SelectTransactions (prof_user_id user)) then (d, written)
      else
        (let ts = transactions_for (prof_user_id user) d;
             correctAvailableShares = total_shares user - (totalBought ts - totalSold ts)
         in if available_shares user \<noteq> correctAvailableShares then
              (if fl (UpdateProfile (prof_id user)) then (d, written @ [prof_id user])
               else (d\<lparr>profiles := update_where (\<lambda>r. prof_id r = prof_id user)
                          (\<lambda>r. r\<lparr>available_shares := correctAvailableShares\<rparr>) (profiles d)\<rparr>,
                     written @ [prof_id user]))
            else (d, written)))"

fun fix_users :: "audit_faults \<Rightarrow> profile_row list \<Rightarrow> db \<times> nat list \<Rightarrow> db \<times> nat list" where
  "fix_users fl [] st = st"
| "fix_users fl (user # users) st = fix_users fl users (fix_user fl user st)"

definition fixShareCountDiscrepancies :: "audit_faults \<Rightarrow> db \<Rightarrow> db \<times> nat list" where
  "fixShareCountDiscrepancies fl d =
     (if fl SelectTradeable then (d, [])
      else fix_users fl (filter is_tradeable (profiles d)) (d, []))"

section \<open>Notions used to state the properties\<close>

text \<open>A fault plan without faults, and one with a single failing call.\<close>

definition no_faults :: faults where
  "no_faults = (\<lambda>_. None)"

definition only_fault :: "call \<Rightarrow> pg_error \<Rightarrow> faults" where
  "only_fault c e = (\<lambda>x. if x = c then Some e else None)"

text \<open>The writes among the calls of a run, in order.\<close>

definition writes :: "call list \<Rightarrow> call list" where
  "writes tr = filter is_write tr"

text \<open>The selections the settlement code makes by key.\<close>

definition account_of :: "uid \<Rightarrow> db \<Rightarrow> account_row list" where
  "account_of u d = filter (\<lambda>r. acc_user_id r = u) (user_accounts d)"

definition profile_of :: "uid \<Rightarrow> db \<Rightarrow> profile_row list" where
  "profile_of u d = filter (\<lambda>r. prof_user_id r = u) (profiles d)"

definition position_of :: "uid \<Rightarrow> uid \<Rightarrow> db \<Rightarrow> share_row list" where
  "position_of owner issuer d =
     filter (\<lambda>r. owner_id r = owner \<and> share_tradeable_user_id r = issuer) (shares d)"

text \<open>Shares of an issuer held by all owners, and the conservation equation
  \<open>availableShares + \<Sum> quantities = totalShares\<close> for an issuer with one profile row.\<close>

definition issued :: "uid \<Rightarrow> share_row list \<Rightarrow> int" where
  "issued issuer rows =
     sum_list (map share_quantity (filter (\<lambda>r. share_tradeable_user_id r = issuer) rows))"

definition held_shares :: "uid \<Rightarrow> db \<Rightarrow> int" where
  "held_shares issuer d = issued issuer (shares d)"

definition conserved :: "uid \<Rightarrow> db \<Rightarrow> bool" where
  "conserved issuer d =
     (case profile_of issuer d of
        [p] \<Rightarrow> available_shares p + held_shares issuer d = total_shares p
      | _ \<Rightarrow> False)"

text \<open>The ownership table as the schema keeps it: identifiers are a primary key, and no
  row holds a negative quantity.\<close>

definition positions_ok :: "db \<Rightarrow> bool" where
  "positions_ok d =
     (distinct (map share_id (shares d)) \<and> list_all (\<lambda>r. 0 \<le> share_quantity r) (shares d))"

text \<open>A sequence of orders against a fixed issuer is run one after the other, by either
  function; the run yields the store after each order as long as every order reports
  success.\<close>

type_synonym settlement =
  "faults \<Rightarrow> uid \<Rightarrow> uid \<Rightarrow> int \<Rightarrow> number \<Rightarrow> transaction_type \<Rightarrow> db \<Rightarrow> TradeExecutionResult \<times> db \<times> call list"

fun settle_all :: "settlement \<Rightarrow> uid \<Rightarrow> trade_order list \<Rightarrow> db \<Rightarrow> db list option" where
  "settle_all exec issuer [] d = Some []"
| "settle_all exec issuer (x # xs) d =
     (case exec (ord_faults x) (ord_buyer x) issuer (ord_quantity x) (ord_price x) (ord_type x) d of
        (res, d', tr) \<Rightarrow>
          if success res
          then (case settle_all exec issuer xs d' of None \<Rightarrow> None | Some ds \<Rightarrow> Some (d' # ds))
          else None)"

text \<open>A sell is covered when the seller has one ownership row with at least the quantity
  sold; a sequence has its sells covered when each sell is, in the store it runs in.\<close>

definition covered :: "uid \<Rightarrow> uid \<Rightarrow> int \<Rightarrow> db \<Rightarrow> bool" where
  "covered owner issuer quantity d =
     (case position_of owner issuer d of [r] \<Rightarrow> quantity \<le> share_quantity r | _ \<Rightarrow> False)"

fun sells_covered :: "uid \<Rightarrow> trade_order list \<Rightarrow> db \<Rightarrow> db list \<Rightarrow> bool" where
  "sells_covered issuer (x # xs) d (d' # ds) =
     ((ord_type x = Buy \<or> covered (ord_buyer x) issuer (ord_quantity x) d)
      \<and> sells_covered issuer xs d' ds)"
| "sells_covered issuer xs d ds = True"

text \<open>
  The audit as the claim describes it, written over the whole transaction log: the net
  number of an issuer's shares issued is the sum of the quantities of the buys of that
  issuer's shares less the sum of the quantities of the sells, and the expected count of
  a profile is its total less that number.
\<close>

definition net_issued :: "uid \<Rightarrow> db \<Rightarrow> int" where
  "net_issued u d =
     sum_list (map txn_quantity
        (filter (\<lambda>t. txn_tradeable_user_id t = u \<and> txn_type t = Buy) (transactions d)))
       - sum_list (map txn_quantity
        (filter (\<lambda>t. txn_tradeable_user_id t = u \<and> txn_type t = Sell) (transactions d)))"

definition expected_available :: "db \<Rightarrow> profile_row \<Rightarrow> int" where
  "expected_available d u = total_shares u - net_issued (prof_user_id u) d"

text \<open>The audit entry of a profile: the numbers above next to the stored count.\<close>

definition audit_entry_of :: "db \<Rightarrow> profile_row \<Rightarrow> audit_entry" where
  "audit_entry_of d u =
     \<lparr>entry_username = prof_username u, entry_total = total_shares u,
      entry_bought = sum_list (map txn_quantity
        (filter (\<lambda>t. txn_tradeable_user_id t = prof_user_id u \<and> txn_type t = Buy) (transactions d))),
      entry_sold = sum_list (map txn_quantity
        (filter (\<lambda>t. txn_tradeable_user_id t = prof_user_id u \<and> txn_type t = Sell) (transactions d))),
      entry_expected = expected_available d u, entry_actual = available_shares u,
      entry_discrepancy = available_shares u - expected_available d u,
      entry_consistent = (available_shares u = expected_available d u)\<rparr>"

text \<open>
  The profiles an audit or a repair reaches under a plan of failing calls: the tradeable
  ones whose transactions are read. A profile row as the repair leaves it: the expected
  count is written where the profile is reached and its update does not fail.
\<close>

definition audited :: "audit_faults \<Rightarrow> profile_row \<Rightarrow> bool" where
  "audited fl u = (is_tradeable u \<and> \<not> fl (SelectTransactions (prof_user_id u)))"

definition repaired :: "audit_faults \<Rightarrow> db \<Rightarrow> profile_row \<Rightarrow> profile_row" where
  "repaired fl d u =
     (if audited fl u \<and> \<not> fl (UpdateProfile (prof_id u))
      then u\<lparr>available_shares := expected_available d u\<rparr> else u)"

text \<open>A plan under which every call of the repair succeeds, and the plan without faults.\<close>

definition repair_succeeds :: "audit_faults \<Rightarrow> db \<Rightarrow> bool" where
  "repair_succeeds fl d =
     (\<not> fl SelectTradeable
      \<and> list_all (\<lambda>u. \<not> fl (SelectTransactions (prof_user_id u)) \<and> \<not> fl (UpdateProfile (prof_id u)))
           (filter is_tradeable (profiles d)))"

definition no_audit_faults :: audit_faults where
  "no_audit_faults = (\<lambda>_. False)"

text \<open>An example store: Alice holds 3 of Bob's 100 shares, bought at 10; Carol holds none.\<close>

definition example_db :: db where
  "example_db =
     \<lparr>user_accounts = [\<lparr>acc_user_id = ''alice'', acc_balance = Fin 1000\<rparr>,
                       \<lparr>acc_user_id = ''carol'', acc_balance = Fin 0\<rparr>],
      profiles = [\<lparr>prof_id = 1, prof_user_id = ''bob'', prof_username = ''bob'', is_tradeable = True,
                   total_shares = 100, available_shares = 97, current_price = Fin 10\<rparr>],
      shares = [\<lparr>share_id = 1, owner_id = ''alice'', share_tradeable_user_id = ''bob'',
                 share_quantity = 3, average_price = Fin 10\<rparr>],
      transactions = [new_transaction 1 ''alice'' ''bob'' 3 (Fin 10) Buy]\<rparr>"

definition example_error :: pg_error where
  "example_error = \<lparr>err_code = ''08006'', err_message = ''connection failure''\<rparr>"

text \<open>Two orders of Alice against Bob: she buys 2 shares at 20, then sells 5 at 30.\<close>

definition example_orders :: "trade_order list" where
  "example_orders =
     [\<lparr>ord_faults = no_faults, ord_buyer = ''alice'', ord_quantity = 2, ord_price = Fin 20, ord_type = Buy\<rparr>,
      \<lparr>ord_faults = no_faults, ord_buyer = ''alice'', ord_quantity = 5, ord_price = Fin 30, ord_type = Sell\<rparr>]"

text \<open>The example store with a drifted counter: 99 shares available and 3 held, of 100.\<close>

definition drifted_db :: db where
  "drifted_db =
     example_db\<lparr>profiles := [\<lparr>prof_id = 1, prof_user_id = ''bob'', prof_username = ''bob'',
                                is_tradeable = True, total_shares = 100, available_shares = 99,
                                current_price = Fin 10\<rparr>]\<rparr>"

text \<open>The example store with a second holder: Dave holds 4 shares, and 93 are available.\<close>

definition shared_db :: db where
  "shared_db =
     example_db\<lparr>profiles := [\<lparr>prof_id = 1, prof_user_id = ''bob'', prof_username = ''bob'',
                                is_tradeable = True, total_shares = 100, available_shares = 93,
                                current_price = Fin 10\<rparr>],
                 shares := [\<lparr>share_id = 1, owner_id = ''alice'', share_tradeable_user_id = ''bob'',
                              share_quantity = 3, average_price = Fin 10\<rparr>,
                            \<lparr>share_id = 2, owner_id = ''dave'', share_tradeable_user_id = ''bob'',
                              share_quantity = 4, average_price = Fin 10\<rparr>]\<rparr>"

text \<open>
  A market with two issuers and a profile that is not tradeable. Bob's log has buys of 3
  and 5 and a sell of 2, so 6 of his 100 shares are out, but his counter says 99. Dana's
  log has a buy of 10 and a sell of 4; her counter, 44 of 50, agrees with it.
\<close>

definition market_db :: db where
  "market_db =
     \<lparr>user_accounts = [\<lparr>acc_user_id = ''alice'', acc_balance = Fin 1000\<rparr>,
                       \<lparr>acc_user_id = ''carol'', acc_balance = Fin 500\<rparr>],
      profiles = [\<lparr>prof_id = 1, prof_user_id = ''bob'', prof_username = ''bob'', is_tradeable = True,
                   total_shares = 100, available_shares = 99, current_price = Fin 10\<rparr>,
                  \<lparr>prof_id = 2, prof_user_id = ''dana'', prof_username = ''dana'', is_tradeable = True,
                   total_shares = 50, available_shares = 44, current_price = Fin 2\<rparr>,
                  \<lparr>prof_id = 3, prof_user_id = ''erin'', prof_username = ''erin'', is_tradeable = False,
                   total_shares = 10000, available_shares = 10000, current_price = Fin 1\<rparr>],
      shares = [\<lparr>share_id = 1, owner_id = ''alice'', share_tradeable_user_id = ''bob'',
                 share_quantity = 3, average_price = Fin 10\<rparr>,
                \<lparr>share_id = 2, owner_id = ''alice'', share_tradeable_user_id = ''dana'',
                 share_quantity = 6, average_price = Fin 2\<rparr>,
                \<lparr>share_id = 3, owner_id = ''carol'', share_tradeable_user_id = ''bob'',
                 share_quantity = 3, average_price = Fin 10\<rparr>],
      transactions = [new_transaction 1 ''alice'' ''bob'' 3 (Fin 10) Buy,
                      new_transaction 2 ''alice'' ''dana'' 10 (Fin 2) Buy,
                      new_transaction 3 ''carol'' ''bob'' 5 (Fin 10) Buy,
                      new_transaction 4 ''alice'' ''dana'' 4 (Fin 3) Sell,
                      new_transaction 5 ''carol'' ''bob'' 2 (Fin 12) Sell]\<rparr>"

text \<open>The plan in which the update of Bob's profile fails and every other call succeeds.\<close>

definition update_of_bob_fails :: audit_faults where
  "update_of_bob_fails = (\<lambda>c. c = UpdateProfile 1)"

text \<open>
  The scenario of two buyers and a short supply: Ivy has 50 of her 100 shares available,
  Zed holding the other 50; Ann and Ben have 1000 each, and each orders 40 shares at 10.
\<close>

definition scarce_db :: db where
  "scarce_db =
     \<lparr>user_accounts = [\<lparr>acc_user_id = ''ann'', acc_balance = Fin 1000\<rparr>,
                       \<lparr>acc_user_id = ''ben'', acc_balance = Fin 1000\<rparr>],
      profiles = [\<lparr>prof_id = 1, prof_user_id = ''ivy'', prof_username = ''ivy'', is_tradeable = True,
                   total_shares = 100, available_shares = 50, current_price = Fin 10\<rparr>],
      shares = [\<lparr>share_id = 1, owner_id = ''zed'', share_tradeable_user_id = ''ivy'',
                 share_quantity = 50, average_price = Fin 10\<rparr>],
      transactions = [new_transaction 1 ''zed'' ''ivy'' 50 (Fin 10) Buy]\<rparr>"

definition order_of_ann :: trade_order where
  "order_of_ann = \<lparr>ord_faults = no_faults, ord_buyer = ''ann'', ord_quantity = 40,
                    ord_price = Fin 10, ord_type = Buy\<rparr>"

definition order_of_ben :: trade_order where
  "order_of_ben = \<lparr>ord_faults = no_faults, ord_buyer = ''ben'', ord_quantity = 40,
                    ord_price = Fin 10, ord_type = Buy\<rparr>"





section \<open>Numbers: what rounding leaves alone\<close>

text \<open>An integer below \<open>2\<close> to the power 53 in magnitude is a double, so arithmetic on whole
  amounts of that size is exact; and a difference is not negative when the comparison
  did not find it so.\<close>

lemma round_half_even_of_int [simp]: "round_half_even (of_int n) = n"
  by (simp add: round_half_even_def)

lemma pow2_pos [simp]: "0 < pow2 e"
  by (simp add: pow2_def)


lemma bitlen_one: "bitlen 1 = 1"
  by (subst compute_bitlen) simp

lemma log2_floor_of_int_le:
  assumes "0 < n" and "n < 2 ^ 53"
  shows "log2_floor (of_int n) \<le> 52"
proof -
  from assms(2) have "bitlen n \<le> 53"
    by (simp add: bitlen_le_iff_power)
  then show ?thesis
    by (simp add: log2_floor_def Let_def bitlen_one)
qed

lemma pow2_1024: "pow2 1024 = 2 ^ 1024"
  unfolding pow2_def by (simp only: nat_numeral if_True zero_le_numeral)

lemma to_double_of_int:
  assumes "\<bar>n\<bar> < 2 ^ 53"
  shows "to_double (of_int n) = Fin (of_int n)"
proof (cases "n = 0")
  case True
  then show ?thesis by (simp add: to_double_def)
next
  case False
  define a where "a = \<bar>n\<bar>"
  define e where "e = max (log2_floor (of_int a) - 52) (- 1074)"
  from False assms have a: "0 < a" "a < 2 ^ 53"
    by (simp_all add: a_def)
  from log2_floor_of_int_le [OF a] have e: "e \<le> 0"
    by (simp add: e_def)
  then have p: "pow2 e = 1 / 2 ^ nat (- e)"
    by (cases "e = 0") (simp_all add: pow2_def)
  have "of_int a / pow2 e = (of_int (a * 2 ^ nat (- e)) :: rat)"
    by (simp add: p)
  then have "round_half_even (of_int a / pow2 e) = a * 2 ^ nat (- e)"
    by (simp only: round_half_even_of_int)
  then have r: "(of_int (round_half_even (of_int a / pow2 e)) :: rat) * pow2 e = of_int a"
    by (simp add: p)
  have small: "\<not> pow2 1024 \<le> (of_int a :: rat)"
  proof -
    from a(2) have "(of_int a :: rat) < of_int (2 ^ 53)"
      by (simp only: of_int_less_iff)
    then have "(of_int a :: rat) < 2 ^ 53"
      by (simp only: of_int_power of_int_numeral)
    also have "(2::rat) ^ 53 \<le> 2 ^ 1024"
      by (rule power_increasing) simp_all
    finally show ?thesis by (simp only: pow2_1024 not_le)
  qed
  have abs: "\<bar>of_int n :: rat\<bar> = of_int a"
    by (simp add: a_def)
  have nz: "(of_int n :: rat) \<noteq> 0"
    using False by simp
  have sgn: "(if 0 < (of_int n :: rat) then (of_int a :: rat) else - of_int a) = of_int n"
    by (simp add: a_def)
  show ?thesis
    unfolding to_double_def Let_def abs e_def [symmetric] r
    using nz small sgn by (simp only: if_False)
qed

lemma to_double_numeral [simp]:
  "(numeral k :: int) < 2 ^ 53 \<Longrightarrow> to_double (numeral k) = Fin (numeral k)"
  using to_double_of_int [of "numeral k"] by simp

lemma to_double_neg_numeral [simp]:
  "(numeral k :: int) < 2 ^ 53 \<Longrightarrow> to_double (- numeral k) = Fin (- numeral k)"
  using to_double_of_int [of "- numeral k"] by simp

lemma to_double_zero [simp]: "to_double 0 = Fin 0"
  by (simp add: to_double_def)

lemma to_double_one [simp]: "to_double 1 = Fin 1"
  using to_double_of_int [of 1] by simp



lemma js_int_numeral [simp]:
  "(numeral k :: int) < 2 ^ 53 \<Longrightarrow> js_int (numeral k) = Fin (numeral k)"
  by (simp add: js_int_def)

lemma js_int_neg_numeral [simp]:
  "(numeral k :: int) < 2 ^ 53 \<Longrightarrow> js_int (- numeral k) = Fin (- numeral k)"
  by (simp add: js_int_def)

lemma js_int_zero [simp]: "js_int 0 = Fin 0"
  by (simp add: js_int_def)

lemma js_int_one [simp]: "js_int 1 = Fin 1"
  by (simp add: js_int_def)

text \<open>
  The rounding is to the nearest double. \<open>log2_floor\<close> is the binary exponent; the result
  differs from the exact value by at most half the spacing of the doubles at that
  exponent; and its significand, the multiple of the spacing, has at most 53 bits.
\<close>

lemma pow2_powi: "pow2 e = 2 powi e"
  by (simp add: pow2_def power_int_def inverse_eq_divide power_one_over)

lemma pow2_nonzero [simp]: "pow2 e \<noteq> 0"
  by (metis pow2_pos less_irrefl)

lemma pow2_add: "pow2 (a + b) = pow2 a * pow2 b"
  by (simp add: pow2_powi power_int_add)

lemma pow2_diff: "pow2 (a - b) = pow2 a / pow2 b"
  by (simp add: pow2_powi power_int_diff)

lemma pow2_nat: "0 \<le> e \<Longrightarrow> pow2 e = 2 ^ nat e"
  by (simp add: pow2_def)

lemma pow2_mono: "a \<le> b \<Longrightarrow> pow2 a \<le> pow2 b"
  by (simp add: pow2_powi power_int_increasing)

lemma bitlen_pos: "0 < n \<Longrightarrow> 1 \<le> bitlen n"
  using bitlen_eq_zero_iff [of n] bitlen_nonneg [of n] by linarith

lemma bitlen_rat_bounds:
  assumes "0 < n"
  shows "pow2 (bitlen n - 1) \<le> of_int n" and "of_int n < pow2 (bitlen n)"
proof -
  have b: "1 \<le> bitlen n"
    using assms by (rule bitlen_pos)
  from bitlen_bounds [OF assms] have "(2::int) ^ nat (bitlen n - 1) \<le> n" "n < 2 ^ nat (bitlen n)"
    by simp_all
  then have "(of_int (2 ^ nat (bitlen n - 1)) :: rat) \<le> of_int n"
      "(of_int n :: rat) < of_int (2 ^ nat (bitlen n))"
    by (simp_all only: of_int_le_iff of_int_less_iff)
  with b show "pow2 (bitlen n - 1) \<le> of_int n" and "of_int n < pow2 (bitlen n)"
    by (simp_all add: pow2_nat)
qed

lemma log2_floor_bounds:
  assumes "0 < x"
  shows "pow2 (log2_floor x) \<le> x \<and> x < pow2 (log2_floor x + 1)"
proof -
  obtain p q where pq: "quotient_of x = (p, q)"
    by (cases "quotient_of x") auto
  have q: "0 < q"
    using quotient_of_denom_pos [OF pq] .
  have x: "x = of_int p / of_int q"
    using quotient_of_div [OF pq] .
  from assms x q have p: "0 < p"
    by (simp add: zero_less_divide_iff)
  define d where "d = bitlen p - bitlen q"
  note p_lo = bitlen_rat_bounds(1) [OF p] and p_hi = bitlen_rat_bounds(2) [OF p]
  note q_lo = bitlen_rat_bounds(1) [OF q] and q_hi = bitlen_rat_bounds(2) [OF q]
  have up: "x < pow2 (d + 1)"
  proof -
    have "x < pow2 (bitlen p) / of_int q"
      unfolding x using p_hi q by (simp add: divide_strict_right_mono)
    also have "\<dots> \<le> pow2 (bitlen p) / pow2 (bitlen q - 1)"
      using q_lo q by (intro divide_left_mono mult_pos_pos) (simp_all add: less_imp_le)
    also have "\<dots> = pow2 (d + 1)"
      by (simp add: d_def flip: pow2_diff) (simp add: algebra_simps)
    finally show ?thesis .
  qed
  have lo: "pow2 (d - 1) < x"
  proof -
    have "pow2 (d - 1) = pow2 (bitlen p - 1) / pow2 (bitlen q)"
      by (simp add: d_def flip: pow2_diff) (simp add: algebra_simps)
    also have "\<dots> < pow2 (bitlen p - 1) / of_int q"
      using q_hi q by (intro divide_strict_left_mono) simp_all
    also have "\<dots> \<le> x"
      unfolding x using p_lo q by (simp add: divide_right_mono)
    finally show ?thesis .
  qed
  show ?thesis
  proof (cases "pow2 d \<le> x")
    case True
    with up show ?thesis
      by (simp add: log2_floor_def pq d_def Let_def)
  next
    case False
    with lo show ?thesis
      by (simp add: log2_floor_def pq d_def Let_def less_imp_le)
  qed
qed

lemma round_half_even_near: "\<bar>of_int (round_half_even y) - y\<bar> \<le> 1 / 2"
proof -
  have "of_int \<lfloor>y\<rfloor> \<le> y" "y < of_int \<lfloor>y\<rfloor> + 1"
    by linarith+
  then show ?thesis
    by (auto simp: round_half_even_def Let_def abs_le_iff)
qed

lemma to_double_nearest:
  assumes "to_double x = Fin r"
  shows "\<bar>r - x\<bar> \<le> pow2 (max (log2_floor \<bar>x\<bar> - 52) (- 1074)) / 2"
proof (cases "x = 0")
  case True
  with assms show ?thesis
    by (simp add: to_double_def less_imp_le)
next
  case False
  define e where "e = max (log2_floor \<bar>x\<bar> - 52) (- 1074)"
  define k where "k = round_half_even (\<bar>x\<bar> / pow2 e)"
  from assms False have r: "r = (if 0 < x then of_int k * pow2 e else - (of_int k * pow2 e))"
    by (simp add: to_double_def Let_def e_def k_def split: if_splits)
  have "\<bar>of_int k * pow2 e - \<bar>x\<bar>\<bar> = \<bar>of_int k - \<bar>x\<bar> / pow2 e\<bar> * pow2 e"
  proof -
    have "of_int k * pow2 e - \<bar>x\<bar> = (of_int k - \<bar>x\<bar> / pow2 e) * pow2 e"
      by (simp add: algebra_simps)
    then show ?thesis
      by (simp only: abs_mult abs_of_pos [OF pow2_pos])
  qed
  also have "\<dots> \<le> 1 / 2 * pow2 e"
    unfolding k_def by (intro mult_right_mono round_half_even_near) (simp add: less_imp_le)
  finally have "\<bar>of_int k * pow2 e - \<bar>x\<bar>\<bar> \<le> pow2 e / 2"
    by simp
  with r False show ?thesis
    unfolding e_def [symmetric] by (cases "0 < x") (auto simp: abs_if split: if_splits)
qed

lemma to_double_significand:
  assumes "x \<noteq> 0"
  shows "round_half_even (\<bar>x\<bar> / pow2 (max (log2_floor \<bar>x\<bar> - 52) (- 1074))) \<le> 2 ^ 53"
proof -
  define e where "e = max (log2_floor \<bar>x\<bar> - 52) (- 1074)"
  from assms have pos: "0 < \<bar>x\<bar>" by simp
  have "\<bar>x\<bar> < pow2 (log2_floor \<bar>x\<bar> + 1)"
    using log2_floor_bounds [OF pos] by simp
  also have "\<dots> \<le> pow2 (e + 53)"
    by (rule pow2_mono) (simp add: e_def)
  also have "\<dots> = 2 ^ 53 * pow2 e"
    by (simp add: pow2_add pow2_nat)
  finally have "\<bar>x\<bar> / pow2 e < 2 ^ 53"
    by (simp add: pos_divide_less_eq)
  then have "\<lfloor>\<bar>x\<bar> / pow2 e\<rfloor> < 2 ^ 53"
    by (simp add: floor_less_iff)
  then show ?thesis
    unfolding e_def [symmetric] by (auto simp: round_half_even_def Let_def)
qed



lemma seventh_of_74: "to_double (74 / 7) = Fin (5951185221882441 / 2 ^ 49)"
  by code_simp

section \<open>Evaluation and table lemmas\<close>

text \<open>The definitions to unfold when a run is evaluated on a concrete store.\<close>

lemmas eval_defs = executeTradeTransaction_def executeTradeTransactionImproved_def settle_improved_def
  update_ownership_def update_ownership_improved_def record_transaction_def new_transaction_def
  holdings_insufficient_def rollback_balance_def rollback_available_shares_def rollback_transaction_def
  single_def maybeSingle_def update_where_def delete_where_def fresh_id_def failure_def succeeded_def
  no_faults_def only_fault_def example_db_def example_error_def drifted_db_def shared_db_def Let_def
  account_of_def profile_of_def position_of_def writes_def js_sub_def

lemma single_Some_iff: "single e rows = Some r \<longleftrightarrow> e = None \<and> rows = [r]"
  by (auto simp: single_def split: option.splits list.splits)

lemma maybeSingle_Some_Some_iff: "maybeSingle e rows = Some (Some r) \<longleftrightarrow> e = None \<and> rows = [r]"
  by (auto simp: maybeSingle_def split: option.splits list.splits)

lemma maybeSingle_Some_None_iff: "maybeSingle e rows = Some None \<longleftrightarrow> e = None \<and> rows = []"
  by (auto simp: maybeSingle_def split: option.splits list.splits)

lemma filter_update_where:
  "(\<And>r. p (f r) = p r) \<Longrightarrow> filter p (update_where p f rows) = map f (filter p rows)"
  by (induction rows) (auto simp: update_where_def)

lemma success_failure [simp]: "\<not> success (failure msg)"
  by (simp add: failure_def)

lemma success_succeeded [simp]: "success (succeeded tid)"
  by (simp add: succeeded_def)

subsection \<open>The path of a successful run\<close>

text \<open>What a successful run of the first version went through.\<close>

lemma executeTradeTransaction_success:
  assumes "executeTradeTransaction fl b i q p t d = (res, d', tr)" and "success res"
  obtains acct prof d3 tr5 where
    "fl SelectAccount = None" "account_of b d = [acct]"
    "\<not> (t = Buy \<and> js_lt (acc_balance acct) (js_mul (js_int q) p))"
    "fl SelectProfile = None" "profile_of i d = [prof]"
    "\<not> (t = Buy \<and> available_shares prof < q)"
    "fl UpdateBalance = None" "fl UpdateAvailableShares = None"
    "update_ownership fl b i q p t
       (d\<lparr>user_accounts := update_where (\<lambda>r. acc_user_id r = b)
             (\<lambda>r. r\<lparr>acc_balance := (if t = Buy then js_sub (acc_balance acct) (js_mul (js_int q) p)
                                      else js_add (acc_balance acct) (js_mul (js_int q) p))\<rparr>) (user_accounts d),
           profiles := update_where (\<lambda>r. prof_user_id r = i)
             (\<lambda>r. r\<lparr>available_shares := (if t = Buy then available_shares prof - q
                                          else available_shares prof + q)\<rparr>) (profiles d)\<rparr>)
       = (Inr d3, tr5)"
    "fl InsertTransaction = None"
    "d' = d3\<lparr>transactions := transactions d3 @
                 [new_transaction (fresh_id (map txn_id (transactions d3))) b i q p t]\<rparr>"
    "tr = [SelectAccount, SelectProfile, UpdateBalance, UpdateAvailableShares] @ tr5 @ [InsertTransaction]"
  using assms
  by (auto simp: executeTradeTransaction_def record_transaction_def Let_def single_Some_iff
        account_of_def profile_of_def
      split: option.splits if_splits sum.splits prod.splits)

text \<open>What step 5 leaves behind when it does not return early.\<close>

lemma update_ownership_Inr:
  assumes "update_ownership fl b i q p t d = (Inr d3, tr5)"
  shows "user_accounts d3 = user_accounts d" and "profiles d3 = profiles d"
    and "transactions d3 = transactions d"
    and "(\<exists>es. position_of b i d = [es] \<and>
              (if (if t = Buy then share_quantity es + q else share_quantity es - q) \<le> 0
               then shares d3 = delete_where (\<lambda>r. share_id r = share_id es) (shares d)
                    \<and> tr5 = [SelectShares, DeleteShares]
               else shares d3 = update_where (\<lambda>r. share_id r = share_id es)
                      (\<lambda>r. r\<lparr>share_quantity := (if t = Buy then share_quantity es + q else share_quantity es - q),
                              average_price := (if t = Buy
                                 then js_div (js_add (js_mul (js_int (share_quantity es)) (average_price es))
                                                            (js_mul (js_int q) p))
                                               (js_int (share_quantity es + q))
                                 else average_price es)\<rparr>) (shares d)
                    \<and> tr5 = [SelectShares, UpdateShares]))
        \<or> (position_of b i d = [] \<and> t = Buy \<and> tr5 = [SelectShares, InsertShares] \<and>
             shares d3 = shares d @ [\<lparr>share_id = fresh_id (map share_id (shares d)), owner_id = b,
                            share_tradeable_user_id = i, share_quantity = q, average_price = p\<rparr>])"
proof -
  let ?m = "maybeSingle (fl SelectShares)
             (filter (\<lambda>r. owner_id r = b \<and> share_tradeable_user_id r = i) (shares d))"
  have all: "user_accounts d3 = user_accounts d \<and> profiles d3 = profiles d
      \<and> transactions d3 = transactions d
      \<and> ((\<exists>es. position_of b i d = [es] \<and>
              (if (if t = Buy then share_quantity es + q else share_quantity es - q) \<le> 0
               then shares d3 = delete_where (\<lambda>r. share_id r = share_id es) (shares d)
                    \<and> tr5 = [SelectShares, DeleteShares]
               else shares d3 = update_where (\<lambda>r. share_id r = share_id es)
                      (\<lambda>r. r\<lparr>share_quantity := (if t = Buy then share_quantity es + q else share_quantity es - q),
                              average_price := (if t = Buy
                                 then js_div (js_add (js_mul (js_int (share_quantity es)) (average_price es))
                                                            (js_mul (js_int q) p))
                                               (js_int (share_quantity es + q))
                                 else average_price es)\<rparr>) (shares d)
                    \<and> tr5 = [SelectShares, UpdateShares]))
        \<or> (position_of b i d = [] \<and> t = Buy \<and> tr5 = [SelectShares, InsertShares] \<and>
             shares d3 = shares d @ [\<lparr>share_id = fresh_id (map share_id (shares d)), owner_id = b,
                            share_tradeable_user_id = i, share_quantity = q, average_price = p\<rparr>]))"
  proof (cases ?m)
    case None
    with assms show ?thesis by (simp add: update_ownership_def)
  next
    case (Some x)
    show ?thesis
    proof (cases x)
      case None
      with Some have m: "?m = Some None" by simp
      then have nopos: "position_of b i d = []"
        by (simp add: maybeSingle_Some_None_iff position_of_def)
      from assms m show ?thesis
        by (cases "fl InsertShares") (auto simp: update_ownership_def nopos split: if_splits)
    next
      case (Some es)
      with \<open>?m = Some x\<close> have m: "?m = Some (Some es)" by simp
      then have pos: "position_of b i d = [es]"
        by (simp add: maybeSingle_Some_Some_iff position_of_def)
      show ?thesis
      proof (cases "(if t = Buy then share_quantity es + q else share_quantity es - q) \<le> 0")
        case True
        with assms m show ?thesis
          by (cases "fl DeleteShares") (auto simp: update_ownership_def pos Let_def)
      next
        case False
        with assms m show ?thesis
          by (cases "fl UpdateShares") (auto simp: update_ownership_def pos Let_def)
      qed
    qed
  qed
  from all show "user_accounts d3 = user_accounts d" by blast
  from all show "profiles d3 = profiles d" by blast
  from all show "transactions d3 = transactions d" by blast
  from all show "(\<exists>es. position_of b i d = [es] \<and>
              (if (if t = Buy then share_quantity es + q else share_quantity es - q) \<le> 0
               then shares d3 = delete_where (\<lambda>r. share_id r = share_id es) (shares d)
                    \<and> tr5 = [SelectShares, DeleteShares]
               else shares d3 = update_where (\<lambda>r. share_id r = share_id es)
                      (\<lambda>r. r\<lparr>share_quantity := (if t = Buy then share_quantity es + q else share_quantity es - q),
                              average_price := (if t = Buy
                                 then js_div (js_add (js_mul (js_int (share_quantity es)) (average_price es))
                                                            (js_mul (js_int q) p))
                                               (js_int (share_quantity es + q))
                                 else average_price es)\<rparr>) (shares d)
                    \<and> tr5 = [SelectShares, UpdateShares]))
        \<or> (position_of b i d = [] \<and> t = Buy \<and> tr5 = [SelectShares, InsertShares] \<and>
             shares d3 = shares d @ [\<lparr>share_id = fresh_id (map share_id (shares d)), owner_id = b,
                            share_tradeable_user_id = i, share_quantity = q, average_price = p\<rparr>])"
    by blast
qed

lemma position_after_update:
  assumes "filter (\<lambda>r. owner_id r = b \<and> share_tradeable_user_id r = i) rows = [es]"
  shows "filter (\<lambda>r. owner_id r = b \<and> share_tradeable_user_id r = i)
           (update_where (\<lambda>r. share_id r = share_id es)
              (\<lambda>r. r\<lparr>share_quantity := n, average_price := a\<rparr>) rows)
         = [es\<lparr>share_quantity := n, average_price := a\<rparr>]"
  using assms
proof (induction rows)
  case Nil
  then show ?case by simp
next
  case (Cons r rows)
  show ?case
  proof (cases "owner_id r = b \<and> share_tradeable_user_id r = i")
    case True
    with Cons.prems have r: "r = es" and rest: "filter (\<lambda>r. owner_id r = b \<and> share_tradeable_user_id r = i) rows = []"
      by auto
    from rest have "filter (\<lambda>r. owner_id r = b \<and> share_tradeable_user_id r = i)
           (update_where (\<lambda>r. share_id r = share_id es)
              (\<lambda>r. r\<lparr>share_quantity := n, average_price := a\<rparr>) rows) = []"
      by (induction rows) (auto simp: update_where_def split: if_splits)
    with True r show ?thesis by (simp add: update_where_def)
  next
    case False
    with Cons show ?thesis by (simp add: update_where_def)
  qed
qed

lemma position_after_delete:
  assumes "filter (\<lambda>r. owner_id r = b \<and> share_tradeable_user_id r = i) rows = [es]"
  shows "filter (\<lambda>r. owner_id r = b \<and> share_tradeable_user_id r = i)
           (delete_where (\<lambda>r. share_id r = share_id es) rows) = []"
proof -
  have "\<And>r. r \<in> set rows \<Longrightarrow> owner_id r = b \<and> share_tradeable_user_id r = i \<Longrightarrow> r = es"
  proof -
    fix r assume "r \<in> set rows" "owner_id r = b \<and> share_tradeable_user_id r = i"
    then have "r \<in> set (filter (\<lambda>r. owner_id r = b \<and> share_tradeable_user_id r = i) rows)" by simp
    with assms show "r = es" by simp
  qed
  then show ?thesis
    by (auto simp: delete_where_def filter_empty_conv)
qed

lemma settle_improved_success:
  assumes "settle_improved fl b i q p t acct prof d = (res, d', tr)" and "success res"
  obtains tr5 where
    "fl InsertTransaction = None" "fl UpdateBalance = None" "fl UpdateAvailableShares = None"
    "0 \<le> (if t = Buy then available_shares prof - q else available_shares prof + q)"
    "(if t = Buy then available_shares prof - q else available_shares prof + q) \<le> total_shares prof"
    "update_ownership_improved fl b i q p t
       (d\<lparr>transactions := transactions d @
                 [new_transaction (fresh_id (map txn_id (transactions d))) b i q p t],
           user_accounts := update_where (\<lambda>r. acc_user_id r = b)
             (\<lambda>r. r\<lparr>acc_balance := (if t = Buy then js_sub (acc_balance acct) (js_mul (js_int q) p)
                                      else js_add (acc_balance acct) (js_mul (js_int q) p))\<rparr>) (user_accounts d),
           profiles := update_where (\<lambda>r. prof_user_id r = i)
             (\<lambda>r. r\<lparr>available_shares := (if t = Buy then available_shares prof - q
                                          else available_shares prof + q)\<rparr>) (profiles d)\<rparr>)
       = (Inr d', tr5)"
    "res = succeeded (fresh_id (map txn_id (transactions d)))"
    "tr = [InsertTransaction, UpdateBalance, UpdateAvailableShares] @ tr5"
  using assms
  by (auto simp: settle_improved_def record_transaction_def Let_def
      split: option.splits if_splits sum.splits prod.splits)

lemma executeTradeTransactionImproved_success:
  assumes "executeTradeTransactionImproved fl b i q p t d = (res, d', tr)" and "success res"
  obtains acct prof tr4 where
    "fl SelectAccount = None" "account_of b d = [acct]"
    "\<not> (t = Buy \<and> js_lt (acc_balance acct) (js_mul (js_int q) p))"
    "fl SelectProfile = None" "profile_of i d = [prof]"
    "\<not> (t = Buy \<and> available_shares prof < q)"
    "\<not> (t = Sell \<and> holdings_insufficient fl b i q d)"
    "settle_improved fl b i q p t acct prof d = (res, d', tr4)"
    "tr = [SelectAccount, SelectProfile] @ (if t = Sell then [SelectHoldings] else []) @ tr4"
  using assms
  by (auto simp: executeTradeTransactionImproved_def Let_def single_Some_iff
        account_of_def profile_of_def
      split: option.splits if_splits prod.splits)

lemma update_ownership_improved_Inr:
  assumes "update_ownership_improved fl b i q p t d = (Inr d3, tr5)"
  shows "user_accounts d3 = user_accounts d \<and> profiles d3 = profiles d
      \<and> transactions d3 = transactions d
      \<and> ((\<exists>es. position_of b i d = [es] \<and>
              (if (if t = Buy then share_quantity es + q else share_quantity es - q) \<le> 0
               then shares d3 = delete_where (\<lambda>r. share_id r = share_id es) (shares d)
                    \<and> tr5 = [SelectShares, DeleteShares]
               else shares d3 = update_where (\<lambda>r. share_id r = share_id es)
                      (\<lambda>r. r\<lparr>share_quantity := (if t = Buy then share_quantity es + q else share_quantity es - q),
                              average_price := (if t = Buy
                                 then js_div (js_add (js_mul (js_int (share_quantity es)) (average_price es))
                                                            (js_mul (js_int q) p))
                                               (js_int (share_quantity es + q))
                                 else average_price es)\<rparr>) (shares d)
                    \<and> tr5 = [SelectShares, UpdateShares]))
        \<or> (position_of b i d = [] \<and> t = Buy \<and> tr5 = [SelectShares, InsertShares] \<and>
             shares d3 = shares d @ [\<lparr>share_id = fresh_id (map share_id (shares d)), owner_id = b,
                            share_tradeable_user_id = i, share_quantity = q, average_price = p\<rparr>])
        \<or> (position_of b i d = [] \<and> t = Sell \<and> tr5 = [SelectShares] \<and> d3 = d))"
proof -
  let ?m = "maybeSingle (fl SelectShares)
             (filter (\<lambda>r. owner_id r = b \<and> share_tradeable_user_id r = i) (shares d))"
  show ?thesis
  proof (cases ?m)
    case None
    with assms show ?thesis by (simp add: update_ownership_improved_def)
  next
    case (Some x)
    show ?thesis
    proof (cases x)
      case None
      with Some have m: "?m = Some None" by simp
      then have nopos: "position_of b i d = []"
        by (simp add: maybeSingle_Some_None_iff position_of_def)
      from assms m nopos show ?thesis
        by (cases "fl InsertShares"; cases t) (auto simp: update_ownership_improved_def split: if_splits)
    next
      case (Some es)
      with \<open>?m = Some x\<close> have m: "?m = Some (Some es)" by simp
      then have pos: "position_of b i d = [es]"
        by (simp add: maybeSingle_Some_Some_iff position_of_def)
      show ?thesis
      proof (cases "(if t = Buy then share_quantity es + q else share_quantity es - q) \<le> 0")
        case True
        with assms m show ?thesis
          by (cases "fl DeleteShares") (auto simp: update_ownership_improved_def pos Let_def)
      next
        case False
        with assms m show ?thesis
          by (cases "fl UpdateShares") (auto simp: update_ownership_improved_def pos Let_def)
      qed
    qed
  qed
qed



subsection \<open>Compensation: what the rollbacks of the improved function restore\<close>

lemma foldr_max_ge: "x \<in> set ids \<Longrightarrow> x \<le> foldr max ids (0::nat)"
  by (induction ids) (auto simp: max_def)

lemma fresh_id_greater: "x \<in> set ids \<Longrightarrow> x < fresh_id ids"
  using foldr_max_ge [of x ids] by (simp add: fresh_id_def)

lemma delete_fresh_transaction:
  "delete_where (\<lambda>r. txn_id r = fresh_id (map txn_id rows))
     (rows @ [new_transaction (fresh_id (map txn_id rows)) b i q p t]) = rows"
proof -
  have "\<And>r. r \<in> set rows \<Longrightarrow> txn_id r \<noteq> fresh_id (map txn_id rows)"
    using fresh_id_greater [of _ "map txn_id rows"] by fastforce
  then have "filter (\<lambda>r. txn_id r \<noteq> fresh_id (map txn_id rows)) rows = rows"
    by (simp add: filter_id_conv)
  then show ?thesis
    by (simp add: delete_where_def new_transaction_def)
qed

lemma update_where_restore:
  assumes "filter p rows = [r]" and "\<And>x. p (f x) = p x" and "g (f r) = r"
  shows "update_where p g (update_where p f rows) = rows"
proof -
  have only: "\<And>x. x \<in> set rows \<Longrightarrow> p x \<Longrightarrow> x = r"
  proof -
    fix x assume "x \<in> set rows" "p x"
    then have "x \<in> set (filter p rows)" by simp
    with assms(1) show "x = r" by simp
  qed
  have "update_where p g (update_where p f rows) = map (\<lambda>x. if p x then g (f x) else x) rows"
    by (simp add: update_where_def assms(2) cong: if_cong)
  also have "\<dots> = map (\<lambda>x. x) rows"
    by (rule map_cong) (auto simp: assms(3) dest: only)
  finally show ?thesis by simp
qed

lemma settle_improved_restores:
  assumes acct: "account_of b d = [acct]" and prof: "profile_of i d = [prof]"
      and comp: "fl RollbackBalance = None" "fl RollbackAvailableShares = None"
                "fl RollbackTransaction = None"
      and run: "settle_improved fl b i q p t acct prof d = (res, d', tr)"
      and fail: "\<not> success res"
  shows "d' = d"
proof -
  have A: "\<And>v. update_where (\<lambda>r. acc_user_id r = b) (\<lambda>r. r\<lparr>acc_balance := acc_balance acct\<rparr>)
            (update_where (\<lambda>r. acc_user_id r = b) (\<lambda>r. r\<lparr>acc_balance := v\<rparr>) (user_accounts d))
          = user_accounts d"
    using acct by (intro update_where_restore [where r = acct]) (simp_all add: account_of_def)
  have P: "\<And>v. update_where (\<lambda>r. prof_user_id r = i) (\<lambda>r. r\<lparr>available_shares := available_shares prof\<rparr>)
            (update_where (\<lambda>r. prof_user_id r = i) (\<lambda>r. r\<lparr>available_shares := v\<rparr>) (profiles d))
          = profiles d"
    using prof by (intro update_where_restore [where r = prof]) (simp_all add: profile_of_def)
  show ?thesis
    using run fail comp
    by (auto simp: settle_improved_def record_transaction_def Let_def
          rollback_balance_def rollback_available_shares_def rollback_transaction_def
          A P delete_fresh_transaction
        split: option.splits if_splits sum.splits prod.splits)
qed

subsection \<open>The ownership table under the writes of step 5\<close>

lemma update_where_none: "(\<And>r. r \<in> set rows \<Longrightarrow> \<not> p r) \<Longrightarrow> update_where p f rows = rows"
  by (induction rows) (auto simp: update_where_def)

lemma delete_where_none: "(\<And>r. r \<in> set rows \<Longrightarrow> \<not> p r) \<Longrightarrow> delete_where p rows = rows"
  by (induction rows) (auto simp: delete_where_def)

lemma same_id_same_row:
  "distinct (map share_id rows) \<Longrightarrow> es \<in> set rows \<Longrightarrow> r \<in> set rows
     \<Longrightarrow> share_id r = share_id es \<Longrightarrow> r = es"
  by (meson distinct_map inj_onD)

lemma issued_update:
  assumes "distinct (map share_id rows)" and "es \<in> set rows" and "share_tradeable_user_id es = i"
  shows "issued i (update_where (\<lambda>r. share_id r = share_id es)
                     (\<lambda>r. r\<lparr>share_quantity := n, average_price := a\<rparr>) rows)
         = issued i rows - share_quantity es + n"
  using assms
proof (induction rows)
  case Nil
  then show ?case by simp
next
  case (Cons r rows)
  show ?case
  proof (cases "r = es")
    case True
    with Cons.prems(1) have "\<And>x. x \<in> set rows \<Longrightarrow> share_id x \<noteq> share_id es"
      by (metis distinct.simps(2) image_eqI list.simps(9) set_map)
    then have "update_where (\<lambda>r. share_id r = share_id es)
                 (\<lambda>r. r\<lparr>share_quantity := n, average_price := a\<rparr>) rows = rows"
      by (intro update_where_none) auto
    with True Cons.prems(3) show ?thesis
      by (simp add: issued_def update_where_def)
  next
    case False
    with Cons.prems have in_tail: "es \<in> set rows" and d: "distinct (map share_id rows)"
      and ne: "share_id r \<noteq> share_id es"
      by auto
    from Cons.IH [OF d in_tail Cons.prems(3)] ne show ?thesis
      by (simp add: issued_def update_where_def)
  qed
qed

lemma issued_delete:
  assumes "distinct (map share_id rows)" and "es \<in> set rows" and "share_tradeable_user_id es = i"
  shows "issued i (delete_where (\<lambda>r. share_id r = share_id es) rows) = issued i rows - share_quantity es"
  using assms
proof (induction rows)
  case Nil
  then show ?case by simp
next
  case (Cons r rows)
  show ?case
  proof (cases "r = es")
    case True
    with Cons.prems(1) have "\<And>x. x \<in> set rows \<Longrightarrow> share_id x \<noteq> share_id es"
      by (metis distinct.simps(2) image_eqI list.simps(9) set_map)
    then have "delete_where (\<lambda>r. share_id r = share_id es) rows = rows"
      by (intro delete_where_none) auto
    with True Cons.prems(3) show ?thesis
      by (simp add: issued_def delete_where_def)
  next
    case False
    with Cons.prems have in_tail: "es \<in> set rows" and d: "distinct (map share_id rows)"
      and ne: "share_id r \<noteq> share_id es"
      by auto
    from Cons.IH [OF d in_tail Cons.prems(3)] ne show ?thesis
      by (simp add: issued_def delete_where_def)
  qed
qed

lemma issued_insert:
  "issued i (rows @ [r]) = issued i rows + (if share_tradeable_user_id r = i then share_quantity r else 0)"
  by (simp add: issued_def)

lemma map_share_id_update [simp]:
  "map share_id (update_where p (\<lambda>r. r\<lparr>share_quantity := n, average_price := a\<rparr>) rows) = map share_id rows"
  by (induction rows) (auto simp: update_where_def)

lemma distinct_delete_where:
  "distinct (map share_id rows) \<Longrightarrow> distinct (map share_id (delete_where p rows))"
  by (simp add: delete_where_def distinct_map_filter)

lemma distinct_insert_fresh:
  "distinct (map share_id rows) \<Longrightarrow>
   distinct (map share_id (rows @ [\<lparr>share_id = fresh_id (map share_id rows), owner_id = b,
                            share_tradeable_user_id = i, share_quantity = q, average_price = p\<rparr>]))"
  using fresh_id_greater [of "fresh_id (map share_id rows)" "map share_id rows"] by auto

lemma position_of_member:
  "position_of b i d = [es] \<Longrightarrow> es \<in> set (shares d) \<and> owner_id es = b \<and> share_tradeable_user_id es = i"
proof -
  assume "position_of b i d = [es]"
  then have "es \<in> set (filter (\<lambda>r. owner_id r = b \<and> share_tradeable_user_id r = i) (shares d))"
    by (simp add: position_of_def)
  then show ?thesis by simp
qed

lemma list_all_update_where:
  "list_all P rows \<Longrightarrow> (\<And>r. p r \<Longrightarrow> P (f r)) \<Longrightarrow> list_all P (update_where p f rows)"
  by (induction rows) (auto simp: update_where_def)

lemma list_all_delete_where:
  "list_all P rows \<Longrightarrow> list_all P (delete_where p rows)"
  by (induction rows) (auto simp: delete_where_def)

lemma ownership_conserves:
  assumes dist: "distinct (map share_id rows)"
      and nonneg: "list_all (\<lambda>r. 0 \<le> share_quantity r) rows"
      and q: "0 < q"
      and out: "(\<exists>es. filter (\<lambda>r. owner_id r = b \<and> share_tradeable_user_id r = i) rows = [es] \<and>
              (if (if t = Buy then share_quantity es + q else share_quantity es - q) \<le> 0
               then rows' = delete_where (\<lambda>r. share_id r = share_id es) rows
               else rows' = update_where (\<lambda>r. share_id r = share_id es)
                      (\<lambda>r. r\<lparr>share_quantity := (if t = Buy then share_quantity es + q else share_quantity es - q),
                              average_price := a es\<rparr>) rows))
        \<or> (filter (\<lambda>r. owner_id r = b \<and> share_tradeable_user_id r = i) rows = [] \<and> t = Buy \<and>
             rows' = rows @ [\<lparr>share_id = fresh_id (map share_id rows), owner_id = b,
                            share_tradeable_user_id = i, share_quantity = q, average_price = p\<rparr>])"
      and cov: "t = Sell \<Longrightarrow>
                 \<exists>es. filter (\<lambda>r. owner_id r = b \<and> share_tradeable_user_id r = i) rows = [es]
                      \<and> q \<le> share_quantity es"
  shows "issued i rows' = issued i rows + (if t = Buy then q else - q)
       \<and> distinct (map share_id rows')
       \<and> list_all (\<lambda>r. 0 \<le> share_quantity r) rows'"
  using out
proof (elim disjE exE conjE)
  fix es
  assume pos: "filter (\<lambda>r. owner_id r = b \<and> share_tradeable_user_id r = i) rows = [es]"
    and eff: "if (if t = Buy then share_quantity es + q else share_quantity es - q) \<le> 0
               then rows' = delete_where (\<lambda>r. share_id r = share_id es) rows
               else rows' = update_where (\<lambda>r. share_id r = share_id es)
                      (\<lambda>r. r\<lparr>share_quantity := (if t = Buy then share_quantity es + q else share_quantity es - q),
                              average_price := a es\<rparr>) rows"
  from pos have "es \<in> set (filter (\<lambda>r. owner_id r = b \<and> share_tradeable_user_id r = i) rows)"
    by simp
  then have mem: "es \<in> set rows" and iss: "share_tradeable_user_id es = i"
    by simp_all
  from mem nonneg have q1: "0 \<le> share_quantity es"
    by (simp add: list_all_iff)
  have covered: "q \<le> share_quantity es" if "t = Sell"
    using cov [OF that] pos by simp
  show ?thesis
  proof (cases "(if t = Buy then share_quantity es + q else share_quantity es - q) \<le> 0")
    case True
    with q q1 have sell: "t = Sell" and "share_quantity es - q \<le> 0"
      by (auto split: if_splits intro: transaction_type.exhaust)
    with covered have same: "share_quantity es = q"
      by simp
    from True eff have "rows' = delete_where (\<lambda>r. share_id r = share_id es) rows"
      by simp
    with issued_delete [OF dist mem iss] distinct_delete_where [OF dist] list_all_delete_where [OF nonneg]
      same sell
    show ?thesis by simp
  next
    case False
    with eff have rows': "rows' = update_where (\<lambda>r. share_id r = share_id es)
                      (\<lambda>r. r\<lparr>share_quantity := (if t = Buy then share_quantity es + q else share_quantity es - q),
                              average_price := a es\<rparr>) rows"
      by simp
    have "list_all (\<lambda>r. 0 \<le> share_quantity r) rows'"
      unfolding rows' using nonneg False by (intro list_all_update_where) auto
    moreover have "issued i rows' = issued i rows + (if t = Buy then q else - q)"
      unfolding rows' using issued_update [OF dist mem iss] by (cases t) auto
    moreover have "distinct (map share_id rows')"
      unfolding rows' using dist by simp
    ultimately show ?thesis by simp
  qed
next
  assume "t = Buy"
    and "rows' = rows @ [\<lparr>share_id = fresh_id (map share_id rows), owner_id = b,
                            share_tradeable_user_id = i, share_quantity = q, average_price = p\<rparr>]"
  with distinct_insert_fresh [OF dist, of b i q p] nonneg q show ?thesis
    by (simp add: issued_insert)
qed

subsection \<open>The first call of the write phase\<close>


subsection \<open>One settled order and the conservation equation\<close>

lemma holdings_sufficient_covered:
  assumes "\<not> holdings_insufficient fl b i q d"
  shows "\<exists>es. filter (\<lambda>r. owner_id r = b \<and> share_tradeable_user_id r = i) (shares d) = [es]
              \<and> q \<le> share_quantity es"
  using assms
  by (auto simp: holdings_insufficient_def single_def split: option.splits list.splits)

lemma conserved_after:
  assumes cons: "conserved i d" and prof: "profile_of i d = [prof]"
      and profs: "profiles d' = update_where (\<lambda>r. prof_user_id r = i)
                     (\<lambda>r. r\<lparr>available_shares := (if t = Buy then available_shares prof - q
                                                  else available_shares prof + q)\<rparr>) (profiles d)"
      and held: "issued i (shares d') = issued i (shares d) + (if t = Buy then q else - q)"
  shows "conserved i d'"
proof -
  have "profile_of i d' = map (\<lambda>r. r\<lparr>available_shares := (if t = Buy then available_shares prof - q
                                                  else available_shares prof + q)\<rparr>) (profile_of i d)"
    by (simp add: profile_of_def profs filter_update_where)
  with prof have "profile_of i d' = [prof\<lparr>available_shares := (if t = Buy then available_shares prof - q
                                                  else available_shares prof + q)\<rparr>]"
    by simp
  moreover from cons prof have "available_shares prof + issued i (shares d) = total_shares prof"
    by (simp add: conserved_def held_shares_def)
  ultimately show ?thesis
    using held by (simp add: conserved_def held_shares_def)
qed

lemma improved_step_conserves:
  assumes wf: "positions_ok d" and cons: "conserved i d" and q: "0 < q"
      and run: "executeTradeTransactionImproved fl b i q p t d = (res, d', tr)"
      and ok: "success res"
  shows "conserved i d' \<and> positions_ok d'"
proof (rule executeTradeTransactionImproved_success[OF run ok], goal_cases)
  case outer: (1 acct prof tr4)
  have cov: "\<exists>es. filter (\<lambda>r. owner_id r = b \<and> share_tradeable_user_id r = i) (shares d) = [es]
              \<and> q \<le> share_quantity es" if "t = Sell"
    using outer(7) that by (intro holdings_sufficient_covered [of fl]) simp
  show ?case
  proof (rule settle_improved_success[OF outer(8) ok], goal_cases)
    case inner: (1 tr5)
    note eff = update_ownership_improved_Inr [OF inner(6)]
    from eff have profs: "profiles d' = update_where (\<lambda>r. prof_user_id r = i)
                     (\<lambda>r. r\<lparr>available_shares := (if t = Buy then available_shares prof - q
                                                  else available_shares prof + q)\<rparr>) (profiles d)"
      by simp
    from eff cov have out:
      "(\<exists>es. filter (\<lambda>r. owner_id r = b \<and> share_tradeable_user_id r = i) (shares d) = [es] \<and>
              (if (if t = Buy then share_quantity es + q else share_quantity es - q) \<le> 0
               then shares d' = delete_where (\<lambda>r. share_id r = share_id es) (shares d)
               else shares d' = update_where (\<lambda>r. share_id r = share_id es)
                      (\<lambda>r. r\<lparr>share_quantity := (if t = Buy then share_quantity es + q else share_quantity es - q),
                              average_price := (if t = Buy
                                 then js_div (js_add (js_mul (js_int (share_quantity es)) (average_price es))
                                                            (js_mul (js_int q) p))
                                               (js_int (share_quantity es + q))
                                 else average_price es)\<rparr>) (shares d)))
        \<or> (filter (\<lambda>r. owner_id r = b \<and> share_tradeable_user_id r = i) (shares d) = [] \<and> t = Buy \<and>
             shares d' = shares d @ [\<lparr>share_id = fresh_id (map share_id (shares d)), owner_id = b,
                            share_tradeable_user_id = i, share_quantity = q, average_price = p\<rparr>])"
      by (auto simp: position_of_def split: if_splits)
    from wf have dist: "distinct (map share_id (shares d))"
      and nonneg: "list_all (\<lambda>r. 0 \<le> share_quantity r) (shares d)"
      by (simp_all add: positions_ok_def)
    from ownership_conserves [where a = "\<lambda>es. if t = Buy
                                 then js_div (js_add (js_mul (js_int (share_quantity es)) (average_price es))
                                                            (js_mul (js_int q) p))
                                               (js_int (share_quantity es + q))
                                 else average_price es", OF dist nonneg q out cov]
    have held: "issued i (shares d') = issued i (shares d) + (if t = Buy then q else - q)"
      and wf': "positions_ok d'"
      by (simp_all add: positions_ok_def)
    from conserved_after [OF cons outer(5) profs held] wf' show ?case by simp
  qed
qed


lemma first_version_step_conserves:
  assumes wf: "positions_ok d" and cons: "conserved i d" and q: "0 < q"
      and run: "executeTradeTransaction fl b i q p t d = (res, d', tr)"
      and ok: "success res"
      and covd: "t = Buy \<or> covered b i q d"
  shows "conserved i d' \<and> positions_ok d'"
proof (rule executeTradeTransaction_success[OF run ok], goal_cases)
  case (1 acct prof d3 tr5)
  have cov: "\<exists>es. filter (\<lambda>r. owner_id r = b \<and> share_tradeable_user_id r = i) (shares d) = [es]
              \<and> q \<le> share_quantity es" if "t = Sell"
    using covd that by (auto simp: covered_def position_of_def split: list.splits)
  note eff = update_ownership_Inr [OF 1(9)]
  from eff(2) 1(11) have profs: "profiles d' = update_where (\<lambda>r. prof_user_id r = i)
                     (\<lambda>r. r\<lparr>available_shares := (if t = Buy then available_shares prof - q
                                                  else available_shares prof + q)\<rparr>) (profiles d)"
    by simp
  from eff(4) have out:
      "(\<exists>es. filter (\<lambda>r. owner_id r = b \<and> share_tradeable_user_id r = i) (shares d) = [es] \<and>
              (if (if t = Buy then share_quantity es + q else share_quantity es - q) \<le> 0
               then shares d3 = delete_where (\<lambda>r. share_id r = share_id es) (shares d)
               else shares d3 = update_where (\<lambda>r. share_id r = share_id es)
                      (\<lambda>r. r\<lparr>share_quantity := (if t = Buy then share_quantity es + q else share_quantity es - q),
                              average_price := (if t = Buy
                                 then js_div (js_add (js_mul (js_int (share_quantity es)) (average_price es))
                                                            (js_mul (js_int q) p))
                                               (js_int (share_quantity es + q))
                                 else average_price es)\<rparr>) (shares d)))
        \<or> (filter (\<lambda>r. owner_id r = b \<and> share_tradeable_user_id r = i) (shares d) = [] \<and> t = Buy \<and>
             shares d3 = shares d @ [\<lparr>share_id = fresh_id (map share_id (shares d)), owner_id = b,
                            share_tradeable_user_id = i, share_quantity = q, average_price = p\<rparr>])"
    by (auto simp: position_of_def split: if_splits)
  from wf have dist: "distinct (map share_id (shares d))"
    and nonneg: "list_all (\<lambda>r. 0 \<le> share_quantity r) (shares d)"
    by (simp_all add: positions_ok_def)
  from ownership_conserves [where a = "\<lambda>es. if t = Buy
                                 then js_div (js_add (js_mul (js_int (share_quantity es)) (average_price es))
                                                            (js_mul (js_int q) p))
                                               (js_int (share_quantity es + q))
                                 else average_price es", OF dist nonneg q out cov] 1(11)
  have held: "issued i (shares d') = issued i (shares d) + (if t = Buy then q else - q)"
    and wf': "positions_ok d'"
    by (simp_all add: positions_ok_def)
  from conserved_after [OF cons 1(5) profs held] wf' show ?case by simp
qed

subsection \<open>The effects of a settled order of the improved function\<close>

lemma improved_success_effects:
  assumes run: "executeTradeTransactionImproved fl b i q p t d = (res, d', tr)" and ok: "success res"
  shows "transactions d' = transactions d @ [new_transaction (fresh_id (map txn_id (transactions d))) b i q p t]
       \<and> map acc_balance (account_of b d')
           = map (\<lambda>bal. if t = Buy then js_sub bal (js_mul (js_int q) p) else js_add bal (js_mul (js_int q) p))
               (map acc_balance (account_of b d))
       \<and> map available_shares (profile_of i d')
           = map (\<lambda>n. if t = Buy then n - q else n + q) (map available_shares (profile_of i d))"
proof (rule executeTradeTransactionImproved_success[OF run ok], goal_cases)
  case outer: (1 acct prof tr4)
  show ?case
  proof (rule settle_improved_success[OF outer(8) ok], goal_cases)
    case inner: (1 tr5)
    note eff = update_ownership_improved_Inr [OF inner(6)]
    from eff have "transactions d' = transactions d @ [new_transaction (fresh_id (map txn_id (transactions d))) b i q p t]"
      by simp
    moreover from eff have "account_of b d'
        = map (\<lambda>r. r\<lparr>acc_balance := (if t = Buy then js_sub (acc_balance acct) (js_mul (js_int q) p)
                                      else js_add (acc_balance acct) (js_mul (js_int q) p))\<rparr>) (account_of b d)"
      by (simp add: account_of_def filter_update_where)
    moreover from eff have "profile_of i d'
        = map (\<lambda>r. r\<lparr>available_shares := (if t = Buy then available_shares prof - q
                                          else available_shares prof + q)\<rparr>) (profile_of i d)"
      by (simp add: profile_of_def filter_update_where)
    ultimately show ?case
      using outer(2) outer(5) by simp
  qed
qed

subsection \<open>The audit and the repair, call by call\<close>

lemma foldl_add_quantity:
  "foldl (\<lambda>sum t. sum + txn_quantity t) a ts = a + sum_list (map txn_quantity ts)"
  by (induction ts arbitrary: a) simp_all

lemma totalBought_for:
  "totalBought (transactions_for u d)
   = sum_list (map txn_quantity
       (filter (\<lambda>t. txn_tradeable_user_id t = u \<and> txn_type t = Buy) (transactions d)))"
  by (simp add: totalBought_def transactions_for_def foldl_add_quantity)

lemma totalSold_for:
  "totalSold (transactions_for u d)
   = sum_list (map txn_quantity
       (filter (\<lambda>t. txn_tradeable_user_id t = u \<and> txn_type t = Sell) (transactions d)))"
  by (simp add: totalSold_def transactions_for_def foldl_add_quantity)

lemma audited_expected:
  "total_shares u - (totalBought (transactions_for (prof_user_id u) d)
                       - totalSold (transactions_for (prof_user_id u) d))
   = expected_available d u"
  by (simp add: expected_available_def net_issued_def totalBought_for totalSold_for)

lemma debug_user_entry:
  "debug_user fl d u = (if fl (SelectTransactions (prof_user_id u)) then [] else [audit_entry_of d u])"
  by (simp add: debug_user_def audit_entry_of_def Let_def expected_available_def net_issued_def
        totalBought_for totalSold_for)

lemma debugAllTradeableUsers_entries:
  "debugAllTradeableUsers fl d
     = (if fl SelectTradeable then [] else map (audit_entry_of d) (filter (audited fl) (profiles d)), d)"
proof -
  have "concat (map (debug_user fl d) us)
        = map (audit_entry_of d) (filter (\<lambda>u. \<not> fl (SelectTransactions (prof_user_id u))) us)" for us
    by (induction us) (simp_all add: debug_user_entry)
  moreover have "filter (\<lambda>u. \<not> fl (SelectTransactions (prof_user_id u))) (filter is_tradeable (profiles d))
        = filter (audited fl) (profiles d)"
    by (simp add: audited_def [abs_def])
  ultimately show ?thesis
    by (simp add: debugAllTradeableUsers_def)
qed

lemma expected_available_same_log:
  "transactions d' = transactions d \<Longrightarrow> expected_available d' u = expected_available d u"
  by (simp add: expected_available_def net_issued_def)

lemma same_id_same_profile:
  "distinct (map prof_id rows) \<Longrightarrow> u \<in> set rows \<Longrightarrow> r \<in> set rows
     \<Longrightarrow> prof_id r = prof_id u \<Longrightarrow> r = u"
  by (meson distinct_map inj_onD)

lemma repaired_keys [simp]:
  "prof_id (repaired fl d u) = prof_id u" "prof_user_id (repaired fl d u) = prof_user_id u"
  "is_tradeable (repaired fl d u) = is_tradeable u" "total_shares (repaired fl d u) = total_shares u"
  by (simp_all add: repaired_def)

lemma fix_user_effect:
  assumes dist: "distinct (map prof_id P0)" and mem: "u \<in> set P0" and fresh: "u \<notin> D"
      and trad: "is_tradeable u"
      and cur: "profiles d = map (\<lambda>r. if r \<in> D then repaired fl d0 r else r) P0"
      and log: "transactions d = transactions d0"
  shows "fix_user fl u (d, w)
       = (d\<lparr>profiles := map (\<lambda>r. if r \<in> insert u D then repaired fl d0 r else r) P0\<rparr>,
          w @ (if audited fl u \<and> available_shares u \<noteq> expected_available d0 u then [prof_id u] else []))"
proof -
  let ?new = "map (\<lambda>r. if r \<in> insert u D then repaired fl d0 r else r) P0"
  have exp: "total_shares u - (totalBought (transactions_for (prof_user_id u) d)
                       - totalSold (transactions_for (prof_user_id u) d)) = expected_available d0 u"
    using audited_expected [of u d] expected_available_same_log [OF log] by simp
  have upd: "update_where (\<lambda>r. prof_id r = prof_id u) (\<lambda>r. r\<lparr>available_shares := expected_available d0 u\<rparr>)
               (profiles d) = ?new"
    if "audited fl u" and "\<not> fl (UpdateProfile (prof_id u))"
    unfolding cur update_where_def map_map
  proof (rule map_cong [OF refl])
    fix r assume r: "r \<in> set P0"
    show "((\<lambda>r. if prof_id r = prof_id u then r\<lparr>available_shares := expected_available d0 u\<rparr> else r)
            \<circ> (\<lambda>r. if r \<in> D then repaired fl d0 r else r)) r
          = (if r \<in> insert u D then repaired fl d0 r else r)"
      using same_id_same_profile [OF dist mem r] fresh that by (auto simp: repaired_def)
  qed
  have keep: "?new = profiles d" if "repaired fl d0 u = u"
    unfolding cur using that by (intro map_cong [OF refl]) auto
  have same: "repaired fl d0 u = u"
    if "\<not> audited fl u \<or> fl (UpdateProfile (prof_id u)) \<or> available_shares u = expected_available d0 u"
    using that by (auto simp: repaired_def)
  show ?thesis
  proof (cases "audited fl u \<and> available_shares u \<noteq> expected_available d0 u
                  \<and> \<not> fl (UpdateProfile (prof_id u))")
    case True
    with upd trad show ?thesis
      by (simp add: fix_user_def exp Let_def audited_def)
  next
    case False
    then have "repaired fl d0 u = u"
      by (intro same) auto
    from keep [OF this] False trad show ?thesis
      by (auto simp: fix_user_def exp Let_def audited_def)
  qed
qed

lemma fix_users_effect:
  assumes "distinct (map prof_id P0)" and "set us \<subseteq> set P0" and "distinct us" and "set us \<inter> D = {}"
      and "list_all is_tradeable us"
      and "profiles d = map (\<lambda>r. if r \<in> D then repaired fl d0 r else r) P0"
      and "transactions d = transactions d0"
  shows "fix_users fl us (d, w)
       = (d\<lparr>profiles := map (\<lambda>r. if r \<in> D \<union> set us then repaired fl d0 r else r) P0\<rparr>,
          w @ map prof_id (filter (\<lambda>u. audited fl u \<and> available_shares u \<noteq> expected_available d0 u) us))"
  using assms
proof (induction us arbitrary: d w D)
  case Nil
  then show ?case by simp
next
  case (Cons u us)
  from Cons.prems have mem: "u \<in> set P0" and fresh: "u \<notin> D" and trad: "is_tradeable u"
    by auto
  note step = fix_user_effect [OF Cons.prems(1) mem fresh trad Cons.prems(6,7), of w]
  let ?d1 = "d\<lparr>profiles := map (\<lambda>r. if r \<in> insert u D then repaired fl d0 r else r) P0\<rparr>"
  let ?w1 = "w @ (if audited fl u \<and> available_shares u \<noteq> expected_available d0 u then [prof_id u] else [])"
  have "fix_users fl us (?d1, ?w1)
      = (?d1\<lparr>profiles := map (\<lambda>r. if r \<in> insert u D \<union> set us then repaired fl d0 r else r) P0\<rparr>,
         ?w1 @ map prof_id (filter (\<lambda>u. audited fl u \<and> available_shares u \<noteq> expected_available d0 u) us))"
    using Cons.prems by (intro Cons.IH) auto
  with step show ?case by simp
qed

lemma fixShareCountDiscrepancies_effect:
  assumes dist: "distinct (map prof_id (profiles d))"
  shows "fixShareCountDiscrepancies fl d
       = (if fl SelectTradeable then (d, [])
          else (d\<lparr>profiles := map (repaired fl d) (profiles d)\<rparr>,
                map prof_id (filter (\<lambda>u. audited fl u \<and> available_shares u \<noteq> expected_available d u)
                               (profiles d))))"
proof -
  from dist have d2: "distinct (filter is_tradeable (profiles d))"
    by (simp add: distinct_map)
  have start: "profiles d = map (\<lambda>r. if r \<in> {} then repaired fl d r else r) (profiles d)"
    by simp
  have all: "list_all is_tradeable (filter is_tradeable (profiles d))"
    by (simp add: list_all_iff)
  have "fix_users fl (filter is_tradeable (profiles d)) (d, [])
      = (d\<lparr>profiles := map (\<lambda>r. if r \<in> {} \<union> set (filter is_tradeable (profiles d))
                                 then repaired fl d r else r) (profiles d)\<rparr>,
         [] @ map prof_id (filter (\<lambda>u. audited fl u \<and> available_shares u \<noteq> expected_available d u)
                             (filter is_tradeable (profiles d))))"
    by (rule fix_users_effect [OF dist _ d2 _ all start refl]) auto
  moreover have "map (\<lambda>r. if r \<in> {} \<union> set (filter is_tradeable (profiles d))
                                 then repaired fl d r else r) (profiles d)
               = map (repaired fl d) (profiles d)"
    by (rule map_cong [OF refl]) (simp add: repaired_def audited_def)
  moreover have "filter (\<lambda>u. audited fl u \<and> available_shares u \<noteq> expected_available d u)
                   (filter is_tradeable (profiles d))
               = filter (\<lambda>u. audited fl u \<and> available_shares u \<noteq> expected_available d u) (profiles d)"
    by (auto simp: audited_def intro: filter_cong)
  ultimately show ?thesis
    by (simp add: fixShareCountDiscrepancies_def)
qed

lemma repaired_entry_consistent:
  assumes "transactions d' = transactions d" and "audited fl u" and "\<not> fl (UpdateProfile (prof_id u))"
  shows "entry_consistent (audit_entry_of d' (repaired fl d u))"
  using assms
  by (simp add: audit_entry_of_def repaired_def expected_available_def net_issued_def)

lemma audit_after_repair:
  assumes dist: "distinct (map prof_id (profiles d))" and ok: "repair_succeeds fl d"
  shows "list_all entry_consistent (fst (debugAllTradeableUsers fl' (fst (fixShareCountDiscrepancies fl d))))"
    and "length (fst (debugAllTradeableUsers no_audit_faults (fst (fixShareCountDiscrepancies fl d))))
           = length (filter is_tradeable (profiles d))"
proof -
  let ?d1 = "d\<lparr>profiles := map (repaired fl d) (profiles d)\<rparr>"
  from ok have sel: "\<not> fl SelectTradeable"
    and each: "\<And>u. u \<in> set (profiles d) \<Longrightarrow> is_tradeable u
                 \<Longrightarrow> audited fl u \<and> \<not> fl (UpdateProfile (prof_id u))"
    by (auto simp: repair_succeeds_def list_all_iff audited_def)
  from sel have rep: "fst (fixShareCountDiscrepancies fl d) = ?d1"
    by (simp add: fixShareCountDiscrepancies_effect [OF dist])
  have "entry_consistent (audit_entry_of ?d1 (repaired fl d u))"
    if "u \<in> set (profiles d)" and "is_tradeable u" for u
    using each [OF that] by (intro repaired_entry_consistent) simp_all
  then show "list_all entry_consistent (fst (debugAllTradeableUsers fl' (fst (fixShareCountDiscrepancies fl d))))"
    by (auto simp: rep debugAllTradeableUsers_entries list_all_iff audited_def)
  show "length (fst (debugAllTradeableUsers no_audit_faults (fst (fixShareCountDiscrepancies fl d))))
           = length (filter is_tradeable (profiles d))"
    by (simp add: rep debugAllTradeableUsers_entries audited_def no_audit_faults_def filter_map
          comp_def)
qed

subsection \<open>A buy that passes the checks, every store call succeeding\<close>





subsection \<open>Two orders: the function in two steps, and a buy after a settled buy\<close>

text \<open>The function is its reads and checks followed by its writes.\<close>

lemma executeTradeTransaction_in_two_steps:
  "executeTradeTransaction fl b i q p t d =
     (case read_steps fl b i q p t d of
        Inl (res, tr) \<Rightarrow> (res, d, tr)
      | Inr (acct, prof) \<Rightarrow>
          (case write_steps fl b i q p t acct prof d of
             (res, d', tr) \<Rightarrow> (res, d', [SelectAccount, SelectProfile] @ tr)))"
  by (simp add: executeTradeTransaction_def read_steps_def write_steps_def Let_def
      split: option.splits sum.splits prod.splits)

lemma profile_after_settlement:
  assumes run: "executeTradeTransaction fl b i q p t d = (res, d', tr)" and ok: "success res"
      and prof: "profile_of i d = [prof]"
  shows "profile_of i d' = [prof\<lparr>available_shares := (if t = Buy then available_shares prof - q
                                                        else available_shares prof + q)\<rparr>]"
proof (rule executeTradeTransaction_success[OF run ok], goal_cases)
  case (1 acct prof' d3 tr5)
  from 1(5) prof have same: "prof' = prof" by simp
  from update_ownership_Inr(2)[OF 1(9)] 1(11)
  have "profiles d' = update_where (\<lambda>r. prof_user_id r = i)
             (\<lambda>r. r\<lparr>available_shares := (if t = Buy then available_shares prof - q
                                          else available_shares prof + q)\<rparr>) (profiles d)"
    by (simp add: same)
  then have "profile_of i d' = map (\<lambda>r. r\<lparr>available_shares := (if t = Buy then available_shares prof - q
                                          else available_shares prof + q)\<rparr>) (profile_of i d)"
    by (simp add: profile_of_def filter_update_where)
  with prof show ?case by simp
qed

lemma buy_beyond_supply_rejected:
  assumes "profile_of i d = [prof]" and "available_shares prof < q"
  shows "case executeTradeTransaction fl b i q p Buy d of
           (res, d', tr) \<Rightarrow> \<not> success res \<and> d' = d \<and> writes tr = []
             \<and> (single (fl SelectAccount) (account_of b d) = Some acct
                  \<and> \<not> js_lt (acc_balance acct) (js_mul (js_int q) p)
                  \<and> fl SelectProfile = None \<longrightarrow> res = failure ''Insufficient shares available'')"
proof (cases "single (fl SelectAccount) (account_of b d)")
  case None
  then show ?thesis
    by (simp add: executeTradeTransaction_def account_of_def writes_def)
next
  case (Some a)
  show ?thesis
  proof (cases "js_lt (acc_balance a) (js_mul (js_int q) p)")
    case True
    with Some show ?thesis
      by (auto simp: executeTradeTransaction_def account_of_def writes_def)
  next
    case False
    from assms(1) have "single (fl SelectProfile) (filter (\<lambda>r. prof_user_id r = i) (profiles d))
        = (if fl SelectProfile = None then Some prof else None)"
      by (auto simp: single_def profile_of_def split: option.splits)
    with Some False assms(2) show ?thesis
      by (auto simp: executeTradeTransaction_def account_of_def writes_def)
  qed
qed

section \<open>C1: conservation of an issuer's shares\<close>

text \<open>
  Claim C1, as the code has it. Take a store whose ownership rows have distinct
  identifiers and no negative quantity, and in which an issuer's available shares plus
  the shares held by all owners equal the total. Run a sequence of orders against that
  issuer, each of positive quantity and each reporting success, through
  \<open>executeTradeTransactionImproved\<close>, or through \<open>executeTradeTransaction\<close> provided each
  sell is covered by the seller's ownership row in the store it runs in. Then the
  equation holds in the store after each order, and the ownership table stays as
  described.
\<close>
theorem settled_orders_conserve_shares:
  assumes "exec = executeTradeTransactionImproved
           \<or> exec = executeTradeTransaction \<and> sells_covered issuer orders d ds"
      and "positions_ok d" and "conserved issuer d"
      and "list_all (\<lambda>x. 0 < ord_quantity x) orders"
      and "settle_all exec issuer orders d = Some ds"
  shows "list_all (conserved issuer) ds \<and> list_all positions_ok ds"
  using assms
proof (induction orders arbitrary: d ds)
  case Nil
  then show ?case by simp
next
  case (Cons x xs)
  obtain res d1 tr where run:
    "exec (ord_faults x) (ord_buyer x) issuer (ord_quantity x) (ord_price x) (ord_type x) d = (res, d1, tr)"
    by (cases "exec (ord_faults x) (ord_buyer x) issuer (ord_quantity x) (ord_price x) (ord_type x) d") auto
  with Cons.prems(5) obtain ds1 where ok: "success res"
    and rest: "settle_all exec issuer xs d1 = Some ds1" and ds: "ds = d1 # ds1"
    by (auto split: if_splits option.splits)
  from Cons.prems(4) have q: "0 < ord_quantity x" and qs: "list_all (\<lambda>x. 0 < ord_quantity x) xs"
    by simp_all
  from Cons.prems(1) have step: "conserved issuer d1 \<and> positions_ok d1"
  proof
    assume "exec = executeTradeTransactionImproved"
    with improved_step_conserves [OF Cons.prems(2,3) q _ ok] run show ?thesis
      by simp
  next
    assume first: "exec = executeTradeTransaction \<and> sells_covered issuer (x # xs) d ds"
    with ds have "ord_type x = Buy \<or> covered (ord_buyer x) issuer (ord_quantity x) d"
      by simp
    with first_version_step_conserves [OF Cons.prems(2,3) q _ ok] run first show ?thesis
      by simp
  qed
  from Cons.prems(1) ds have "exec = executeTradeTransactionImproved
           \<or> exec = executeTradeTransaction \<and> sells_covered issuer xs d1 ds1"
    by auto
  with Cons.IH [OF _ _ _ qs rest] step have "list_all (conserved issuer) ds1 \<and> list_all positions_ok ds1"
    by simp
  with step ds show ?case by simp
qed

text \<open>The theorem on the example store and the two example orders, in both functions:
  the store is well formed, both orders settle, and the equation holds after each.\<close>

theorem settled_orders_conserve_shares_witness:
  "positions_ok example_db \<and> conserved ''bob'' example_db
   \<and> list_all (\<lambda>x. 0 < ord_quantity x) example_orders
   \<and> (case settle_all executeTradeTransactionImproved ''bob'' example_orders example_db of
         None \<Rightarrow> False
       | Some ds \<Rightarrow> length ds = 2 \<and> list_all (conserved ''bob'') ds \<and> list_all positions_ok ds)
   \<and> (case settle_all executeTradeTransaction ''bob'' example_orders example_db of
         None \<Rightarrow> False
       | Some ds \<Rightarrow> length ds = 2 \<and> sells_covered ''bob'' example_orders example_db ds
                    \<and> list_all (conserved ''bob'') ds \<and> list_all positions_ok ds)"
proof -
  have wf: "positions_ok example_db"
    by (simp add: positions_ok_def example_db_def)
  have cons: "conserved ''bob'' example_db"
    by (simp add: conserved_def profile_of_def held_shares_def issued_def example_db_def)
  have pos: "list_all (\<lambda>x. 0 < ord_quantity x) example_orders"
    by (simp add: example_orders_def)
  obtain ds where run: "settle_all executeTradeTransactionImproved ''bob'' example_orders example_db = Some ds"
    and len: "length ds = 2"
    by (simp add: example_orders_def eval_defs)
  obtain ds' where run': "settle_all executeTradeTransaction ''bob'' example_orders example_db = Some ds'"
    and len': "length ds' = 2" and cov: "sells_covered ''bob'' example_orders example_db ds'"
    by (simp add: example_orders_def eval_defs covered_def)
  from settled_orders_conserve_shares [OF _ wf cons pos run]
  have a: "list_all (conserved ''bob'') ds \<and> list_all positions_ok ds"
    by simp
  from settled_orders_conserve_shares [OF _ wf cons pos run'] cov
  have b: "list_all (conserved ''bob'') ds' \<and> list_all positions_ok ds'"
    by simp
  from wf cons pos a b len len' cov show ?thesis
    by (simp add: run run')
qed

text \<open>
  The claim as written speaks of every settled order. In the improved function a buy of
  quantity \<open>-5\<close> by Alice settles on the store with two holders, removes her row of 3
  shares and raises the available shares by 5: the equation, which held before, fails
  after. In \<open>executeTradeTransaction\<close> a sell of 5 shares by Alice, who holds 3, settles
  on the example store with the same effect.
\<close>

theorem settled_orders_break_conservation:
  "conserved ''bob'' shared_db \<and> conserved ''bob'' example_db
   \<and> (case executeTradeTransactionImproved no_faults ''alice'' ''bob'' (- 5) (Fin 10) Buy shared_db of
        (res, d', tr) \<Rightarrow> success res \<and> \<not> conserved ''bob'' d'
           \<and> held_shares ''bob'' d' = 4 \<and> map available_shares (profile_of ''bob'' d') = [98])
   \<and> (case executeTradeTransaction no_faults ''alice'' ''bob'' 5 (Fin 10) Sell example_db of
        (res, d', tr) \<Rightarrow> success res \<and> \<not> conserved ''bob'' d'
           \<and> held_shares ''bob'' d' = 0 \<and> map available_shares (profile_of ''bob'' d') = [102])"
  by (simp add: eval_defs conserved_def held_shares_def issued_def)

section \<open>C2: selling more than is held\<close>

text \<open>
  Claim C2 has every sell for more than the seller's position, or without a position,
  rejected before any state is mutated. \<open>executeTradeTransaction\<close> breaks it on the
  example store, where \<open>executeTradeTransactionImproved\<close> rejects both orders at its
  holdings check. Alice, holding 3 shares,
  sells 5: the order settles, her balance is credited with 50, the available shares rise
  to 102 and her row is deleted. Carol, holding none, sells 5: the order fails, but only
  after her balance was credited with 50 and the available shares raised to 102.
\<close>

theorem first_version_sells_beyond_holdings:
  "executeTradeTransaction no_faults ''alice'' ''bob'' 5 (Fin 10) Sell example_db
     = (succeeded 2,
        example_db\<lparr>user_accounts := [\<lparr>acc_user_id = ''alice'', acc_balance = Fin 1050\<rparr>,
                                       \<lparr>acc_user_id = ''carol'', acc_balance = Fin 0\<rparr>],
                    profiles := [\<lparr>prof_id = 1, prof_user_id = ''bob'', prof_username = ''bob'',
                                   is_tradeable = True, total_shares = 100, available_shares = 102,
                                   current_price = Fin 10\<rparr>],
                    shares := [],
                    transactions := [new_transaction 1 ''alice'' ''bob'' 3 (Fin 10) Buy,
                                     new_transaction 2 ''alice'' ''bob'' 5 (Fin 10) Sell]\<rparr>,
        [SelectAccount, SelectProfile, UpdateBalance, UpdateAvailableShares, SelectShares,
         DeleteShares, InsertTransaction])
   \<and> executeTradeTransaction no_faults ''carol'' ''bob'' 5 (Fin 10) Sell example_db
     = (failure ''Cannot sell shares you do not own'',
        example_db\<lparr>user_accounts := [\<lparr>acc_user_id = ''alice'', acc_balance = Fin 1000\<rparr>,
                                       \<lparr>acc_user_id = ''carol'', acc_balance = Fin 50\<rparr>],
                    profiles := [\<lparr>prof_id = 1, prof_user_id = ''bob'', prof_username = ''bob'',
                                   is_tradeable = True, total_shares = 100, available_shares = 102,
                                   current_price = Fin 10\<rparr>]\<rparr>,
        [SelectAccount, SelectProfile, UpdateBalance, UpdateAvailableShares, SelectShares])"
  by (simp add: eval_defs)

section \<open>C3: all or nothing\<close>

text \<open>
  Claim C3, as the code has it. Let \<open>executeTradeTransactionImproved\<close> run an order under
  any failures of its reads and forward writes, the compensating writes succeeding. If
  the outcome is not a success, the whole store (balances, available shares, ownership
  rows and the transaction log) is as it was before the call. If it is a success, the
  transaction row has been appended, the buyer's balance carries the order's amount and
  the issuer's available shares carry its quantity.
\<close>

theorem improved_settles_all_or_nothing:
  assumes "fl RollbackBalance = None" and "fl RollbackAvailableShares = None"
      and "fl RollbackTransaction = None"
  shows "case executeTradeTransactionImproved fl buyerId tradeableUserId quantity pricePerShare
                transactionType d of
           (res, d', tr) \<Rightarrow>
             (\<not> success res \<longrightarrow> d' = d)
           \<and> (success res \<longrightarrow>
                transactions d' = transactions d @
                   [new_transaction (fresh_id (map txn_id (transactions d))) buyerId tradeableUserId
                      quantity pricePerShare transactionType]
              \<and> map acc_balance (account_of buyerId d')
                  = map (\<lambda>bal. if transactionType = Buy then js_sub bal (js_mul (js_int quantity) pricePerShare)
                                else js_add bal (js_mul (js_int quantity) pricePerShare))
                      (map acc_balance (account_of buyerId d))
              \<and> map available_shares (profile_of tradeableUserId d')
                  = map (\<lambda>n. if transactionType = Buy then n - quantity else n + quantity)
                      (map available_shares (profile_of tradeableUserId d)))"
proof -
  obtain res d' tr where run:
    "executeTradeTransactionImproved fl buyerId tradeableUserId quantity pricePerShare transactionType d
       = (res, d', tr)"
    by (cases "executeTradeTransactionImproved fl buyerId tradeableUserId quantity pricePerShare
                 transactionType d") auto
  have "d' = d" if fail: "\<not> success res"
  proof (cases "single (fl SelectAccount) (filter (\<lambda>r. acc_user_id r = buyerId) (user_accounts d))")
    case None
    with run show ?thesis by (simp add: executeTradeTransactionImproved_def)
  next
    case (Some acct)
    then have acct: "account_of buyerId d = [acct]"
      by (simp add: single_Some_iff account_of_def)
    show ?thesis
    proof (cases "single (fl SelectProfile) (filter (\<lambda>r. prof_user_id r = tradeableUserId) (profiles d))")
      case None
      with run Some show ?thesis
        by (simp add: executeTradeTransactionImproved_def split: if_splits)
    next
      case (Some prof)
      then have prof: "profile_of tradeableUserId d = [prof]"
        by (simp add: single_Some_iff profile_of_def)
      obtain res2 d2 tr2 where inner:
        "settle_improved fl buyerId tradeableUserId quantity pricePerShare transactionType acct prof d
           = (res2, d2, tr2)"
        by (cases "settle_improved fl buyerId tradeableUserId quantity pricePerShare transactionType
                     acct prof d") auto
      from run \<open>single (fl SelectAccount) _ = Some acct\<close> Some inner
      have "d' = d \<or> (res = res2 \<and> d' = d2)"
        by (auto simp: executeTradeTransactionImproved_def split: if_splits)
      with settle_improved_restores [OF acct prof assms inner] fail show ?thesis
        by auto
    qed
  qed
  with improved_success_effects [OF run] show ?thesis
    by (simp add: run)
qed

text \<open>On the example store: a sell whose ownership update fails is undone completely, and
  the same sell without failures takes effect.\<close>

theorem improved_settles_all_or_nothing_witness:
  "only_fault UpdateShares example_error RollbackBalance = None
   \<and> only_fault UpdateShares example_error RollbackAvailableShares = None
   \<and> only_fault UpdateShares example_error RollbackTransaction = None
   \<and> executeTradeTransactionImproved (only_fault UpdateShares example_error) ''alice'' ''bob'' 2 (Fin 10) Sell
        example_db
       = (failure ''Failed to update shares record'', example_db,
          [SelectAccount, SelectProfile, SelectHoldings, InsertTransaction, UpdateBalance,
           UpdateAvailableShares, SelectShares, UpdateShares, RollbackBalance,
           RollbackAvailableShares, RollbackTransaction])
   \<and> (case executeTradeTransactionImproved no_faults ''alice'' ''bob'' 2 (Fin 10) Sell example_db of
        (res, d', tr) \<Rightarrow> success res
          \<and> transactions d' = [new_transaction 1 ''alice'' ''bob'' 3 (Fin 10) Buy,
                                new_transaction 2 ''alice'' ''bob'' 2 (Fin 10) Sell]
          \<and> map acc_balance (account_of ''alice'' d') = [Fin 1020]
          \<and> map available_shares (profile_of ''bob'' d') = [99])"
proof -
  have c: "only_fault UpdateShares example_error RollbackBalance = None"
      "only_fault UpdateShares example_error RollbackAvailableShares = None"
      "only_fault UpdateShares example_error RollbackTransaction = None"
    by (simp_all add: only_fault_def)
  have n: "no_faults RollbackBalance = None" "no_faults RollbackAvailableShares = None"
      "no_faults RollbackTransaction = None"
    by (simp_all add: no_faults_def)
  have res: "fst (executeTradeTransactionImproved (only_fault UpdateShares example_error)
                    ''alice'' ''bob'' 2 (Fin 10) Sell example_db) = failure ''Failed to update shares record''"
      "snd (snd (executeTradeTransactionImproved (only_fault UpdateShares example_error)
                    ''alice'' ''bob'' 2 (Fin 10) Sell example_db))
         = [SelectAccount, SelectProfile, SelectHoldings, InsertTransaction, UpdateBalance,
           UpdateAvailableShares, SelectShares, UpdateShares, RollbackBalance,
           RollbackAvailableShares, RollbackTransaction]"
      "success (fst (executeTradeTransactionImproved no_faults ''alice'' ''bob'' 2 (Fin 10) Sell example_db))"
    by (simp_all add: eval_defs)
  have before: "transactions example_db = [new_transaction 1 ''alice'' ''bob'' 3 (Fin 10) Buy]"
      "map acc_balance (account_of ''alice'' example_db) = [Fin 1000]"
      "map available_shares (profile_of ''bob'' example_db) = [97]"
      "fresh_id (map txn_id (transactions example_db)) = 2"
    by (simp_all add: example_db_def account_of_def profile_of_def fresh_id_def new_transaction_def)
  show ?thesis
    using c res before
      improved_settles_all_or_nothing [OF c, where buyerId = "''alice''" and tradeableUserId = "''bob''"
        and quantity = 2 and pricePerShare = "Fin 10" and transactionType = Sell and d = example_db]
      improved_settles_all_or_nothing [OF n, where buyerId = "''alice''" and tradeableUserId = "''bob''"
        and quantity = 2 and pricePerShare = "Fin 10" and transactionType = Sell and d = example_db]
    by (auto split: prod.splits)
qed

text \<open>
  The claim as written covers every failure of one store write. In the improved function
  the failing write can be a compensation: on the store with the drifted counter a sell
  of Alice's 3 shares is abandoned with \<open>Invalid share calculation\<close>, the restoring write
  of the balance fails, and the credit of 30 stays. \<open>executeTradeTransaction\<close>
  compensates nothing: when the update of the available shares fails, the buyer's debit
  of 50 stays.
\<close>

theorem failed_settlement_leaves_writes:
  "executeTradeTransactionImproved (only_fault RollbackBalance example_error) ''alice'' ''bob'' 3 (Fin 10) Sell
      drifted_db
     = (failure ''Invalid share calculation'',
        drifted_db\<lparr>user_accounts := [\<lparr>acc_user_id = ''alice'', acc_balance = Fin 1030\<rparr>,
                                       \<lparr>acc_user_id = ''carol'', acc_balance = Fin 0\<rparr>]\<rparr>,
        [SelectAccount, SelectProfile, SelectHoldings, InsertTransaction, UpdateBalance,
         RollbackBalance, RollbackTransaction])
   \<and> executeTradeTransaction (only_fault UpdateAvailableShares example_error) ''alice'' ''bob'' 5 (Fin 10) Buy
      example_db
     = (failure ''Failed to update share availability'',
        example_db\<lparr>user_accounts := [\<lparr>acc_user_id = ''alice'', acc_balance = Fin 950\<rparr>,
                                       \<lparr>acc_user_id = ''carol'', acc_balance = Fin 0\<rparr>]\<rparr>,
        [SelectAccount, SelectProfile, UpdateBalance, UpdateAvailableShares])"
  by (simp add: eval_defs)

section \<open>C4: the place of the transaction row among the writes\<close>

text \<open>
  Claim C4 has the transaction row appended as the first write of a settlement, before
  the balance, the available shares and the ownership row. \<open>executeTradeTransaction\<close>
  appends it last: in Alice's settled buy of 5 shares the writes are the balance, the
  available shares, the ownership row and then the transaction row; and when that
  insertion fails, the three changes before it are in the store with no row in the log.
  The improved function does insert the row first.
\<close>

theorem first_version_records_transaction_last:
  "(case executeTradeTransaction no_faults ''alice'' ''bob'' 5 (Fin 10) Buy example_db of
      (res, d', tr) \<Rightarrow>
        res = succeeded 2
      \<and> tr = [SelectAccount, SelectProfile, UpdateBalance, UpdateAvailableShares, SelectShares,
              UpdateShares, InsertTransaction]
      \<and> writes tr = [UpdateBalance, UpdateAvailableShares, UpdateShares, InsertTransaction])
   \<and> (case executeTradeTransaction (only_fault InsertTransaction example_error) ''alice'' ''bob'' 5 (Fin 10) Buy
            example_db of
      (res, d', tr) \<Rightarrow>
        res = failure ''Failed to record transaction''
      \<and> map acc_balance (account_of ''alice'' d') = [Fin 950]
      \<and> map available_shares (profile_of ''bob'' d') = [92]
      \<and> map share_quantity (position_of ''alice'' ''bob'' d') = [8]
      \<and> transactions d' = transactions example_db)"
  by (simp add: eval_defs)

section \<open>C5: two buy orders and a supply that covers one of them\<close>

text \<open>
  Claim C5, as the code has it. \<open>executeTradeTransaction\<close> takes no lock, checks no
  version and reports no contention. What keeps two buys from both settling is the
  supply check of the second call, made on the share count the first call has written:
  when the two calls run one after the other against an issuer whose available shares
  are fewer than the two quantities together, they never both settle; if the first
  settles, the second is rejected before any write and leaves the store as the first
  left it, and its rejection is \<open>Insufficient shares available\<close> when its account is
  read and covers its cost and its read of the profile succeeds.
\<close>
theorem buys_one_after_the_other_share_supply:
  assumes "ord_type a = Buy" and "ord_type b = Buy"
      and "profile_of issuer d = [issuerProfile]"
      and "available_shares issuerProfile < ord_quantity a + ord_quantity b"
  shows "(case one_after_the_other issuer a b d of
            (resA, resB, d') \<Rightarrow> \<not> (success resA \<and> success resB))
       \<and> (case executeTradeTransaction (ord_faults a) (ord_buyer a) issuer (ord_quantity a)
                  (ord_price a) Buy d of
            (resA, d1, trA) \<Rightarrow> success resA \<longrightarrow>
              (case executeTradeTransaction (ord_faults b) (ord_buyer b) issuer (ord_quantity b)
                      (ord_price b) Buy d1 of
                 (resB, d2, trB) \<Rightarrow> \<not> success resB \<and> d2 = d1 \<and> writes trB = []
                   \<and> (single (ord_faults b SelectAccount) (account_of (ord_buyer b) d1) = Some accountB
                        \<and> \<not> js_lt (acc_balance accountB) (js_mul (js_int (ord_quantity b)) (ord_price b))
                        \<and> ord_faults b SelectProfile = None \<longrightarrow>
                      resB = failure ''Insufficient shares available'')))"
proof -
  obtain resA d1 trA where runA:
    "executeTradeTransaction (ord_faults a) (ord_buyer a) issuer (ord_quantity a) (ord_price a) Buy d
       = (resA, d1, trA)"
    by (cases "executeTradeTransaction (ord_faults a) (ord_buyer a) issuer (ord_quantity a)
                 (ord_price a) Buy d") auto
  have second: "case executeTradeTransaction (ord_faults b) (ord_buyer b) issuer (ord_quantity b)
                      (ord_price b) Buy d1 of
                 (resB, d2, trB) \<Rightarrow> \<not> success resB \<and> d2 = d1 \<and> writes trB = []
                   \<and> (single (ord_faults b SelectAccount) (account_of (ord_buyer b) d1) = Some accountB
                        \<and> \<not> js_lt (acc_balance accountB) (js_mul (js_int (ord_quantity b)) (ord_price b))
                        \<and> ord_faults b SelectProfile = None \<longrightarrow>
                      resB = failure ''Insufficient shares available'')"
    if ok: "success resA"
  proof -
    from profile_after_settlement [OF runA ok assms(3)]
    have "profile_of issuer d1
            = [issuerProfile\<lparr>available_shares := available_shares issuerProfile - ord_quantity a\<rparr>]"
      by simp
    moreover from assms(4)
    have "available_shares (issuerProfile\<lparr>available_shares := available_shares issuerProfile - ord_quantity a\<rparr>)
            < ord_quantity b"
      by simp
    ultimately show ?thesis
      by (rule buy_beyond_supply_rejected)
  qed
  then show ?thesis
    using assms(1,2) by (auto simp: one_after_the_other_def runA split: prod.splits)
qed

text \<open>
  The scenario: 50 shares available, Ann and Ben each order 40. One after the other,
  Ann's order settles and Ben's is rejected for the supply; 10 shares stay available and
  Ann holds 40.
\<close>

theorem buys_one_after_the_other_share_supply_witness:
  "ord_type order_of_ann = Buy \<and> ord_type order_of_ben = Buy
   \<and> profile_of ''ivy'' scarce_db
        = [\<lparr>prof_id = 1, prof_user_id = ''ivy'', prof_username = ''ivy'', is_tradeable = True,
            total_shares = 100, available_shares = 50, current_price = Fin 10\<rparr>]
   \<and> (50 :: int) < ord_quantity order_of_ann + ord_quantity order_of_ben
   \<and> (case one_after_the_other ''ivy'' order_of_ann order_of_ben scarce_db of
        (resA, resB, d') \<Rightarrow>
          resA = succeeded 2 \<and> resB = failure ''Insufficient shares available''
        \<and> \<not> (success resA \<and> success resB)
        \<and> map available_shares (profile_of ''ivy'' d') = [10]
        \<and> map share_quantity (position_of ''ann'' ''ivy'' d') = [40]
        \<and> position_of ''ben'' ''ivy'' d' = []
        \<and> map acc_balance (account_of ''ben'' d') = [Fin 1000]
        \<and> conserved ''ivy'' d')"
proof -
  have t: "ord_type order_of_ann = Buy" "ord_type order_of_ben = Buy"
    by (simp_all add: order_of_ann_def order_of_ben_def)
  have prof: "profile_of ''ivy'' scarce_db
        = [\<lparr>prof_id = 1, prof_user_id = ''ivy'', prof_username = ''ivy'', is_tradeable = True,
            total_shares = 100, available_shares = 50, current_price = Fin 10\<rparr>]"
    by (simp add: profile_of_def scarce_db_def)
  have short: "available_shares \<lparr>prof_id = 1, prof_user_id = ''ivy'', prof_username = ''ivy'',
            is_tradeable = True, total_shares = 100, available_shares = 50, current_price = Fin 10\<rparr>
          < ord_quantity order_of_ann + ord_quantity order_of_ben"
    by (simp add: order_of_ann_def order_of_ben_def)
  have run: "case one_after_the_other ''ivy'' order_of_ann order_of_ben scarce_db of
        (resA, resB, d') \<Rightarrow>
          resA = succeeded 2 \<and> resB = failure ''Insufficient shares available''
        \<and> map available_shares (profile_of ''ivy'' d') = [10]
        \<and> map share_quantity (position_of ''ann'' ''ivy'' d') = [40]
        \<and> position_of ''ben'' ''ivy'' d' = []
        \<and> map acc_balance (account_of ''ben'' d') = [Fin 1000]
        \<and> conserved ''ivy'' d'"
    by (simp add: one_after_the_other_def order_of_ann_def order_of_ben_def scarce_db_def eval_defs
          conserved_def held_shares_def issued_def)
  show ?thesis
    using t prof short run buys_one_after_the_other_share_supply [OF t prof short]
    by (auto split: prod.splits)
qed

text \<open>
  The claim as written has the two orders run at once and never both settle. Each call
  awaits its store calls one by one, and nothing stops the second call from reading the
  profile before the first has written it. When both calls have read the 50 available
  shares before either writes, both pass the supply check, both settle, and each writes
  10 as the new count: 10 shares are available and 130 are held, of 100.
\<close>

theorem overlapping_buys_both_settle:
  "conserved ''ivy'' scarce_db
   \<and> map available_shares (profile_of ''ivy'' scarce_db) = [50]
   \<and> ord_quantity order_of_ann = 40 \<and> ord_quantity order_of_ben = 40
   \<and> (case reads_before_writes ''ivy'' order_of_ann order_of_ben scarce_db of
        (resA, resB, d') \<Rightarrow>
          resA = succeeded 2 \<and> resB = succeeded 3
        \<and> map available_shares (profile_of ''ivy'' d') = [10]
        \<and> map share_quantity (position_of ''ann'' ''ivy'' d') = [40]
        \<and> map share_quantity (position_of ''ben'' ''ivy'' d') = [40]
        \<and> held_shares ''ivy'' d' = 130
        \<and> \<not> conserved ''ivy'' d')"
  by (simp add: reads_before_writes_def read_steps_def write_steps_def order_of_ann_def
        order_of_ben_def scarce_db_def eval_defs conserved_def held_shares_def issued_def)

section \<open>C6: the audit and the repair of the share counter\<close>

text \<open>
  Claim C6, as the code has it. Let profile identifiers be a primary key, and let any of
  the store calls fail. The audit reports, for each tradeable profile whose transactions
  it could read, the expected count next to the stored one: the total less the
  quantities of the buys of that issuer's shares in the log, plus the quantities of the
  sells. The repair issues an update for exactly those of these profiles whose stored
  count differs from the expected one, and each update that succeeds stores the expected
  count; a failed update is skipped and the run goes on. When every call of the repair
  succeeds, an audit after it reports every profile it reaches consistent, and without
  faults it reaches every tradeable profile. The audit writes nothing and depends only on
  the profiles and the transaction log, so a second audit reports what the first did.
\<close>
theorem audit_and_repair:
  assumes "distinct (map prof_id (profiles d))"
  shows "debugAllTradeableUsers fl d
           = (if fl SelectTradeable then []
              else map (audit_entry_of d) (filter (audited fl) (profiles d)), d)
       \<and> fixShareCountDiscrepancies fl d
           = (if fl SelectTradeable then (d, [])
              else (d\<lparr>profiles := map (repaired fl d) (profiles d)\<rparr>,
                    map prof_id (filter (\<lambda>u. audited fl u \<and> available_shares u \<noteq> expected_available d u)
                                   (profiles d))))
       \<and> (repair_succeeds fl d \<longrightarrow>
            list_all entry_consistent
              (fst (debugAllTradeableUsers fl' (fst (fixShareCountDiscrepancies fl d))))
          \<and> length (fst (debugAllTradeableUsers no_audit_faults (fst (fixShareCountDiscrepancies fl d))))
              = length (filter is_tradeable (profiles d)))
       \<and> (profiles d' = profiles d \<and> transactions d' = transactions d \<longrightarrow>
            fst (debugAllTradeableUsers fl d') = fst (debugAllTradeableUsers fl d))
       \<and> snd (debugAllTradeableUsers fl d) = d"
proof (intro conjI impI)
  show "debugAllTradeableUsers fl d
           = (if fl SelectTradeable then []
              else map (audit_entry_of d) (filter (audited fl) (profiles d)), d)"
    by (rule debugAllTradeableUsers_entries)
  show "fixShareCountDiscrepancies fl d
           = (if fl SelectTradeable then (d, [])
              else (d\<lparr>profiles := map (repaired fl d) (profiles d)\<rparr>,
                    map prof_id (filter (\<lambda>u. audited fl u \<and> available_shares u \<noteq> expected_available d u)
                                   (profiles d))))"
    by (rule fixShareCountDiscrepancies_effect [OF assms])
next
  assume "repair_succeeds fl d"
  then show "list_all entry_consistent
              (fst (debugAllTradeableUsers fl' (fst (fixShareCountDiscrepancies fl d))))"
    by (rule audit_after_repair(1) [OF assms])
next
  assume "repair_succeeds fl d"
  then show "length (fst (debugAllTradeableUsers no_audit_faults (fst (fixShareCountDiscrepancies fl d))))
              = length (filter is_tradeable (profiles d))"
    by (rule audit_after_repair(2) [OF assms])
next
  assume same: "profiles d' = profiles d \<and> transactions d' = transactions d"
  then have "audit_entry_of d' u = audit_entry_of d u" for u
    by (simp add: audit_entry_of_def expected_available_def net_issued_def)
  with same show "fst (debugAllTradeableUsers fl d') = fst (debugAllTradeableUsers fl d)"
    by (simp add: debugAllTradeableUsers_entries)
next
  show "snd (debugAllTradeableUsers fl d) = d"
    by (simp add: debugAllTradeableUsers_def)
qed

text \<open>
  On the market with two issuers, every call succeeding. The audit counts Bob's buys (3
  and 5) and his sell (2) and not Dana's: 94 expected against 99 stored. Dana is
  consistent, Erin is not tradeable and is not audited. The repair writes Bob's profile
  only; the audit after it reports Bob and Dana consistent, and reports the same when
  the accounts, which it does not read, are gone.
\<close>

theorem audit_and_repair_witness:
  "distinct (map prof_id (profiles market_db))
   \<and> repair_succeeds no_audit_faults market_db
   \<and> debugAllTradeableUsers no_audit_faults market_db
       = ([\<lparr>entry_username = ''bob'', entry_total = 100, entry_bought = 8, entry_sold = 2,
            entry_expected = 94, entry_actual = 99, entry_discrepancy = 5,
            entry_consistent = False\<rparr>,
           \<lparr>entry_username = ''dana'', entry_total = 50, entry_bought = 10, entry_sold = 4,
            entry_expected = 44, entry_actual = 44, entry_discrepancy = 0,
            entry_consistent = True\<rparr>], market_db)
   \<and> map available_shares (profiles (fst (fixShareCountDiscrepancies no_audit_faults market_db)))
       = [94, 44, 10000]
   \<and> snd (fixShareCountDiscrepancies no_audit_faults market_db) = [1]
   \<and> list_all entry_consistent
        (fst (debugAllTradeableUsers no_audit_faults
               (fst (fixShareCountDiscrepancies no_audit_faults market_db))))
   \<and> length (fst (debugAllTradeableUsers no_audit_faults
               (fst (fixShareCountDiscrepancies no_audit_faults market_db)))) = 2
   \<and> fst (debugAllTradeableUsers no_audit_faults (market_db\<lparr>user_accounts := []\<rparr>))
       = fst (debugAllTradeableUsers no_audit_faults market_db)"
proof -
  have dist: "distinct (map prof_id (profiles market_db))"
    by (simp add: market_db_def)
  have ok: "repair_succeeds no_audit_faults market_db"
    by (simp add: repair_succeeds_def no_audit_faults_def list_all_iff)
  have same: "profiles (market_db\<lparr>user_accounts := []\<rparr>) = profiles market_db
      \<and> transactions (market_db\<lparr>user_accounts := []\<rparr>) = transactions market_db"
    by simp
  have ps: "profiles market_db
      = [\<lparr>prof_id = 1, prof_user_id = ''bob'', prof_username = ''bob'', is_tradeable = True,
           total_shares = 100, available_shares = 99, current_price = Fin 10\<rparr>,
         \<lparr>prof_id = 2, prof_user_id = ''dana'', prof_username = ''dana'', is_tradeable = True,
           total_shares = 50, available_shares = 44, current_price = Fin 2\<rparr>,
         \<lparr>prof_id = 3, prof_user_id = ''erin'', prof_username = ''erin'', is_tradeable = False,
           total_shares = 10000, available_shares = 10000, current_price = Fin 1\<rparr>]"
    by (simp add: market_db_def)
  have ts: "map (\<lambda>t. (txn_tradeable_user_id t, txn_type t, txn_quantity t)) (transactions market_db)
      = [(''bob'', Buy, 3), (''dana'', Buy, 10), (''bob'', Buy, 5), (''dana'', Sell, 4), (''bob'', Sell, 2)]"
    by (simp add: market_db_def new_transaction_def)
  have net: "net_issued ''bob'' market_db = 6" "net_issued ''dana'' market_db = 6"
    by (simp_all add: net_issued_def market_db_def new_transaction_def)
  have sums: "sum_list (map txn_quantity (filter (\<lambda>t. txn_tradeable_user_id t = ''bob'' \<and> txn_type t = Buy)
                 (transactions market_db))) = 8"
      "sum_list (map txn_quantity (filter (\<lambda>t. txn_tradeable_user_id t = ''bob'' \<and> txn_type t = Sell)
                 (transactions market_db))) = 2"
      "sum_list (map txn_quantity (filter (\<lambda>t. txn_tradeable_user_id t = ''dana'' \<and> txn_type t = Buy)
                 (transactions market_db))) = 10"
      "sum_list (map txn_quantity (filter (\<lambda>t. txn_tradeable_user_id t = ''dana'' \<and> txn_type t = Sell)
                 (transactions market_db))) = 4"
    by (simp_all add: market_db_def new_transaction_def)
  note inst = audit_and_repair [OF dist, where fl = no_audit_faults and fl' = no_audit_faults
      and d' = "market_db\<lparr>user_accounts := []\<rparr>"]
  show ?thesis
    using dist ok same inst
    by (auto simp: ps net sums audited_def repaired_def audit_entry_of_def expected_available_def
          no_audit_faults_def)
qed

text \<open>
  The claim as written has a repair followed by an audit always report consistent. The
  repair logs a failed update and goes on: on the same market, when the update of Bob's
  profile fails, the repair has issued that one update, the store is as it was, and the
  audit after it reports Bob's discrepancy of 5 again.
\<close>

theorem failed_update_leaves_discrepancy:
  "fixShareCountDiscrepancies update_of_bob_fails market_db = (market_db, [1])
   \<and> fst (debugAllTradeableUsers no_audit_faults
            (fst (fixShareCountDiscrepancies update_of_bob_fails market_db)))
       = [\<lparr>entry_username = ''bob'', entry_total = 100, entry_bought = 8, entry_sold = 2,
            entry_expected = 94, entry_actual = 99, entry_discrepancy = 5,
            entry_consistent = False\<rparr>,
           \<lparr>entry_username = ''dana'', entry_total = 50, entry_bought = 10, entry_sold = 4,
            entry_expected = 44, entry_actual = 44, entry_discrepancy = 0,
            entry_consistent = True\<rparr>]"
proof -
  have fixd: "fixShareCountDiscrepancies update_of_bob_fails market_db = (market_db, [1])"
    by (simp add: fixShareCountDiscrepancies_def fix_user_def update_of_bob_fails_def market_db_def
          totalBought_def totalSold_def transactions_for_def new_transaction_def Let_def)
  show ?thesis
    unfolding fixd
    by (simp add: debugAllTradeableUsers_def debug_user_def no_audit_faults_def market_db_def
          totalBought_def totalSold_def transactions_for_def new_transaction_def Let_def)
qed

section \<open>C7: the ownership row after a settled order\<close>

text \<open>
  Claim C7, as the code has it. Let the buyer have exactly one ownership row
  \<open>(q1, avg1)\<close> for the issuer and let \<open>executeTradeTransaction\<close> report success for an
  order of quantity \<open>q2\<close> at price \<open>p2\<close>. After a buy with \<open>0 < q1 + q2\<close> the row has
  quantity \<open>q1 + q2\<close>, and the average price written is \<open>(q1 * avg1 + q2 * p2) / (q1 + q2)\<close>
  as the code computes it: two products, a sum and a quotient of doubles, each rounded
  to the nearest double. After a buy with \<open>q1 + q2 \<le> 0\<close> the row is gone. After a sell
  with \<open>0 < q1 - q2\<close> the row has quantity \<open>q1 - q2\<close> and its average price is unchanged;
  after a sell with \<open>q1 - q2 = 0\<close> the row is gone. The code deletes the row when the new
  quantity is zero or negative. (The number is what the code hands to the store; the
  column it goes to then keeps two decimals of it.)
\<close>
theorem position_after_settlement:
  assumes "position_of buyerId tradeableUserId d = [pos]"
  shows "case executeTradeTransaction fl buyerId tradeableUserId quantity pricePerShare transactionType d of
           (res, d', tr) \<Rightarrow> success res \<longrightarrow>
          (transactionType = Buy \<and> 0 < share_quantity pos + quantity \<longrightarrow>
            position_of buyerId tradeableUserId d' =
              [pos\<lparr>share_quantity := share_quantity pos + quantity,
                   average_price := js_div (js_add (js_mul (js_int (share_quantity pos)) (average_price pos))
                                                      (js_mul (js_int quantity) pricePerShare))
                                         (js_int (share_quantity pos + quantity))\<rparr>])
       \<and> (transactionType = Buy \<and> share_quantity pos + quantity \<le> 0 \<longrightarrow> position_of buyerId tradeableUserId d' = [])
       \<and> (transactionType = Sell \<and> 0 < share_quantity pos - quantity \<longrightarrow>
            position_of buyerId tradeableUserId d' = [pos\<lparr>share_quantity := share_quantity pos - quantity\<rparr>])
       \<and> (transactionType = Sell \<and> share_quantity pos - quantity = 0 \<longrightarrow> position_of buyerId tradeableUserId d' = [])"
proof -
  obtain res d' tr where run:
    "executeTradeTransaction fl buyerId tradeableUserId quantity pricePerShare transactionType d = (res, d', tr)"
    by (cases "executeTradeTransaction fl buyerId tradeableUserId quantity pricePerShare transactionType d") auto
  have "(transactionType = Buy \<and> 0 < share_quantity pos + quantity \<longrightarrow>
            position_of buyerId tradeableUserId d' =
              [pos\<lparr>share_quantity := share_quantity pos + quantity,
                   average_price := js_div (js_add (js_mul (js_int (share_quantity pos)) (average_price pos))
                                                      (js_mul (js_int quantity) pricePerShare))
                                         (js_int (share_quantity pos + quantity))\<rparr>])
       \<and> (transactionType = Buy \<and> share_quantity pos + quantity \<le> 0 \<longrightarrow> position_of buyerId tradeableUserId d' = [])
       \<and> (transactionType = Sell \<and> 0 < share_quantity pos - quantity \<longrightarrow>
            position_of buyerId tradeableUserId d' = [pos\<lparr>share_quantity := share_quantity pos - quantity\<rparr>])
       \<and> (transactionType = Sell \<and> share_quantity pos - quantity = 0 \<longrightarrow> position_of buyerId tradeableUserId d' = [])"
    if ok: "success res"
  proof (rule executeTradeTransaction_success[OF run ok], goal_cases)
    case (1 acct prof d3 tr5)
    note own = 1(9) and d' = 1(11)
    have pos: "filter (\<lambda>r. owner_id r = buyerId \<and> share_tradeable_user_id r = tradeableUserId) (shares d) = [pos]"
      using assms(1) by (simp add: position_of_def)
    from update_ownership_Inr(4)[OF own] assms(1)
    have sh: "if (if transactionType = Buy then share_quantity pos + quantity else share_quantity pos - quantity) \<le> 0
               then shares d3 = delete_where (\<lambda>r. share_id r = share_id pos) (shares d)
               else shares d3 = update_where (\<lambda>r. share_id r = share_id pos)
                      (\<lambda>r. r\<lparr>share_quantity := (if transactionType = Buy then share_quantity pos + quantity else share_quantity pos - quantity),
                              average_price := (if transactionType = Buy
                                 then js_div (js_add (js_mul (js_int (share_quantity pos)) (average_price pos))
                                                        (js_mul (js_int quantity) pricePerShare))
                                           (js_int (share_quantity pos + quantity))
                                 else average_price pos)\<rparr>) (shares d)"
      by (auto simp: position_of_def split: if_splits)
    have eq: "position_of buyerId tradeableUserId d'
          = filter (\<lambda>r. owner_id r = buyerId \<and> share_tradeable_user_id r = tradeableUserId) (shares d3)"
      by (simp add: d' position_of_def)
    show ?case
      using sh position_after_update[OF pos] position_after_delete[OF pos]
      by (auto simp: eq split: if_splits)
  qed
  then show ?thesis by (simp add: run)
qed

text \<open>The theorem at work on the example store, once for each of its four cases, and
  once more for a buy whose average is not a double: 4 shares at 11 against 3 at 10 give
  74 / 7, and the number written is the double next to it, 10.571428571428571.\<close>

theorem position_after_settlement_witness:
  "position_of ''alice'' ''bob'' example_db
     = [\<lparr>share_id = 1, owner_id = ''alice'', share_tradeable_user_id = ''bob'',
         share_quantity = 3, average_price = Fin 10\<rparr>]
   \<and> (case executeTradeTransaction no_faults ''alice'' ''bob'' 2 (Fin 20) Buy example_db of
        (res, d', tr) \<Rightarrow> success res \<and> position_of ''alice'' ''bob'' d'
           = [\<lparr>share_id = 1, owner_id = ''alice'', share_tradeable_user_id = ''bob'',
               share_quantity = 5, average_price = Fin 14\<rparr>])
   \<and> (case executeTradeTransaction no_faults ''alice'' ''bob'' 4 (Fin 11) Buy example_db of
        (res, d', tr) \<Rightarrow> success res \<and> position_of ''alice'' ''bob'' d'
           = [\<lparr>share_id = 1, owner_id = ''alice'', share_tradeable_user_id = ''bob'',
               share_quantity = 7, average_price = Fin (5951185221882441 / 2 ^ 49)\<rparr>])
   \<and> (case executeTradeTransaction no_faults ''alice'' ''bob'' (- 5) (Fin 10) Buy example_db of
        (res, d', tr) \<Rightarrow> success res \<and> position_of ''alice'' ''bob'' d' = [])
   \<and> (case executeTradeTransaction no_faults ''alice'' ''bob'' 1 (Fin 20) Sell example_db of
        (res, d', tr) \<Rightarrow> success res \<and> position_of ''alice'' ''bob'' d'
           = [\<lparr>share_id = 1, owner_id = ''alice'', share_tradeable_user_id = ''bob'',
               share_quantity = 2, average_price = Fin 10\<rparr>])
   \<and> (case executeTradeTransaction no_faults ''alice'' ''bob'' 3 (Fin 20) Sell example_db of
        (res, d', tr) \<Rightarrow> success res \<and> position_of ''alice'' ''bob'' d' = [])"
proof -
  have pos: "position_of ''alice'' ''bob'' example_db
     = [\<lparr>share_id = 1, owner_id = ''alice'', share_tradeable_user_id = ''bob'',
         share_quantity = 3, average_price = Fin 10\<rparr>]"
    by (simp add: position_of_def example_db_def)
  have ok: "success (fst (executeTradeTransaction no_faults ''alice'' ''bob'' 2 (Fin 20) Buy example_db))"
       "success (fst (executeTradeTransaction no_faults ''alice'' ''bob'' 4 (Fin 11) Buy example_db))"
       "success (fst (executeTradeTransaction no_faults ''alice'' ''bob'' (- 5) (Fin 10) Buy example_db))"
       "success (fst (executeTradeTransaction no_faults ''alice'' ''bob'' 1 (Fin 20) Sell example_db))"
       "success (fst (executeTradeTransaction no_faults ''alice'' ''bob'' 3 (Fin 20) Sell example_db))"
    by (simp_all add: eval_defs seventh_of_74)
  show ?thesis
    using pos ok
      position_after_settlement [OF pos, where fl = no_faults and quantity = 2 and pricePerShare = "Fin 20" and transactionType = Buy]
      position_after_settlement [OF pos, where fl = no_faults and quantity = 4 and pricePerShare = "Fin 11" and transactionType = Buy]
      position_after_settlement [OF pos, where fl = no_faults and quantity = "- 5" and pricePerShare = "Fin 10" and transactionType = Buy]
      position_after_settlement [OF pos, where fl = no_faults and quantity = 1 and pricePerShare = "Fin 20" and transactionType = Sell]
      position_after_settlement [OF pos, where fl = no_faults and quantity = 3 and pricePerShare = "Fin 20" and transactionType = Sell]
    by (auto simp: seventh_of_74 split: prod.splits)
qed

text \<open>
  The claim as written promises, for every buy against an existing row, a row of quantity
  \<open>q1 + q2\<close> whose average cost is the quotient itself. A buy of quantity \<open>-5\<close> against
  Alice's row of 3 settles and leaves no row. A buy of 4 shares at 11 against her row of
  3 at 10 leaves an average that is not 74 / 7.
\<close>

theorem negative_quantity_buy_deletes_position:
  "position_of ''alice'' ''bob'' example_db
     = [\<lparr>share_id = 1, owner_id = ''alice'', share_tradeable_user_id = ''bob'',
         share_quantity = 3, average_price = Fin 10\<rparr>]
   \<and> (case executeTradeTransaction no_faults ''alice'' ''bob'' (- 5) (Fin 10) Buy example_db of
        (res, d', tr) \<Rightarrow> success res \<and> position_of ''alice'' ''bob'' d' = [])
   \<and> (case executeTradeTransaction no_faults ''alice'' ''bob'' 4 (Fin 11) Buy example_db of
        (res, d', tr) \<Rightarrow> success res
          \<and> map average_price (position_of ''alice'' ''bob'' d') = [Fin (5951185221882441 / 2 ^ 49)]
          \<and> map average_price (position_of ''alice'' ''bob'' d')
                \<noteq> [Fin ((3 * 10 + 4 * 11) / (3 + 4))])"
  by (simp add: eval_defs seventh_of_74)

section \<open>C8: the funds check and the debit of a buy\<close>




section \<open>C9: what is checked before the first write\<close>




section \<open>C10: a sell without an ownership row, in executeTradeTransaction\<close>



end
